theory Spec2Isabelle
  imports Complex_Main
begin

section \<open>Errors of the two scripts\<close>

text \<open>
  Every exception the modelled code can raise is a value. \<open>SystemExit\<close> is
  \<^verbatim>\<open>sys.exit(...)\<close>, \<open>CalledProcessError\<close> a non-zero exit of the
  external tool under \<^verbatim>\<open>check_output\<close>.
\<close>

datatype error =
    ZeroDivisionError
  | SystemExit
  | IndexError
  | ValueError
  | CalledProcessError
  | OSError
  | NoSuchNodeError

section \<open>subtract\_with\_dp3.py: the largest divider\<close>

text \<open>
  \<^verbatim>\<open>
  def get_largest_divider(inp, max=1000):
      for r in range(max)[::-1]:
          if inp % r == 0:
              return r
      sys.exit("ERROR: code should not arrive here.")
  \<close>
  The loop runs over \<open>max - 1, max - 2, ..., 0\<close>. Python's \<^verbatim>\<open>inp % 0\<close> raises
  ZeroDivisionError, so the iteration with \<open>r = 0\<close> is an error branch of the model.
\<close>

fun divider_loop :: "int \<Rightarrow> int list \<Rightarrow> error + int" where
  "divider_loop inp [] = Inl SystemExit"
| "divider_loop inp (r # rs) =
     (if r = 0 then Inl ZeroDivisionError
      else if inp mod r = 0 then Inr r
      else divider_loop inp rs)"

definition get_largest_divider :: "int \<Rightarrow> int \<Rightarrow> error + int" where
  "get_largest_divider inp mx = divider_loop inp (rev [0..mx - 1])"

text \<open>
  The wide-field branch of the main block:
  \<^verbatim>\<open>avg = get_largest_divider(channum, int(polygon['avg'].values[0])); freqavg = int(avg)\<close>
\<close>

definition forwidefield_freqavg :: "int \<Rightarrow> int \<Rightarrow> error + int" where
  "forwidefield_freqavg channum polygon_avg = get_largest_divider channum polygon_avg"

section \<open>Python strings\<close>

text \<open>
  A string is a list of code points below 256. \<open>py_join\<close> is \<^verbatim>\<open>sep.join(xs)\<close>,
  \<open>str_nat\<close> and \<open>str_int\<close> are \<^verbatim>\<open>str(n)\<close> on integers, \<open>py_str\<close> is the formatting of an
  optional string inside an f-string (\<^verbatim>\<open>None\<close> prints as \<open>None\<close>).
  \<open>str_nat\<close> is applied to positions in a list, which stay far below the number of digits
  at which \<^verbatim>\<open>str()\<close> refuses to convert; where an integer of any size can arrive, the
  conversion is \<open>py_str_int\<close> below.
\<close>

fun py_join :: "string \<Rightarrow> string list \<Rightarrow> string" where
  "py_join sep [] = []"
| "py_join sep [x] = x"
| "py_join sep (x # y # ys) = x @ sep @ py_join sep (y # ys)"

definition newline :: string where
  "newline = [CHR 0x0A]"

definition digit_char :: "nat \<Rightarrow> char" where
  "digit_char d = ''0123456789'' ! (d mod 10)"

fun str_nat :: "nat \<Rightarrow> string" where
  "str_nat n = (if n < 10 then [digit_char n] else str_nat (n div 10) @ [digit_char (n mod 10)])"

declare str_nat.simps [simp del]

definition str_int :: "int \<Rightarrow> string" where
  "str_int i = (if i < 0 then ''-'' @ str_nat (nat (- i)) else str_nat (nat i))"

definition py_str :: "string option \<Rightarrow> string" where
  "py_str v = (case v of None \<Rightarrow> ''None'' | Some s \<Rightarrow> s)"

definition startswith :: "string \<Rightarrow> string \<Rightarrow> bool" where
  "startswith s p = (take (length p) s = p)"

text \<open>\<^verbatim>\<open>p in s\<close> on strings: \<open>p\<close> occurs in \<open>s\<close> as a contiguous substring.\<close>

fun py_in :: "string \<Rightarrow> string \<Rightarrow> bool" where
  "py_in p [] = (p = [])"
| "py_in p (c # cs) = (startswith (c # cs) p \<or> py_in p cs)"

text \<open>\<^verbatim>\<open>s.split(c)\<close> for a one-character separator, and \<^verbatim>\<open>s.replace(c, '')\<close>.\<close>

fun split_on :: "char \<Rightarrow> string \<Rightarrow> string list" where
  "split_on c [] = [[]]"
| "split_on c (x # xs) =
     (if x = c then [] # split_on c xs
      else (case split_on c xs of p # ps \<Rightarrow> (x # p) # ps | [] \<Rightarrow> [[x]]))"

definition remove_char :: "char \<Rightarrow> string \<Rightarrow> string" where
  "remove_char c s = filter (\<lambda>x. x \<noteq> c) s"

section \<open>subtract\_with\_dp3.py: the command builder\<close>

text \<open>
  \<^verbatim>\<open>
  class SubtractDP3:
      def __init__(self, mslist: list = None):
          self.mslist = mslist
          self.cmd = ['DP3', 'msin.missingdata=True', 'msin.orderms=False',
                      'msout.storagemanager=dysco']
          self.steps = []
  \<close>
  The object is a record of its three attributes; every method takes the record and returns
  the updated one. The \<^verbatim>\<open>print\<close> calls of the methods write to standard output only and
  are left out.
\<close>

record SubtractDP3 =
  mslist :: "string list"
  cmd :: "string list"
  steps :: "string list"

definition base_cmd :: "string list" where
  "base_cmd = [''DP3'', ''msin.missingdata=True'', ''msin.orderms=False'',
               ''msout.storagemanager=dysco'']"

definition init :: "string list \<Rightarrow> SubtractDP3" where
  "init ms = \<lparr>mslist = ms, cmd = base_cmd, steps = []\<rparr>"

subsection \<open>predict\<close>

text \<open>
  \<^verbatim>\<open>
  self.steps.append('predict')
  self.cmd += ['predict.type = predict', f'predict.sourcedb = {sourcedb}',
               'predict.usebeammodel = True', 'predict.usebeammodel = True',
               'predict.beammode = array_factor', 'predict.applycal.steps = [amp, phase]',
               'predict.applycal.amp.correction = amplitude000',
               'predict.applycal.phase.correction = phase000',
               f'predict.applycal.parmdb = {h5parm}', 'msout=.']
  if subtract:
      self.cmd += ['predict.operation = subtract', 'msout.datacolumn = SUBTRACT_DATA']
  \<close>
  \<open>sourcedb\<close> and \<open>h5parm\<close> default to \<^verbatim>\<open>None\<close>, and so does \<open>subtract\<close>, which is
  then false in the condition.
\<close>

definition predict_tokens :: "string option \<Rightarrow> string option \<Rightarrow> string list" where
  "predict_tokens sourcedb h5parm =
     [''predict.type = predict'',
      ''predict.sourcedb = '' @ py_str sourcedb,
      ''predict.usebeammodel = True'',
      ''predict.usebeammodel = True'',
      ''predict.beammode = array_factor'',
      ''predict.applycal.steps = [amp, phase]'',
      ''predict.applycal.amp.correction = amplitude000'',
      ''predict.applycal.phase.correction = phase000'',
      ''predict.applycal.parmdb = '' @ py_str h5parm,
      ''msout=.'']"

definition subtract_tokens :: "bool option \<Rightarrow> string list" where
  "subtract_tokens subtract =
     (if subtract = Some True
      then [''predict.operation = subtract'', ''msout.datacolumn = SUBTRACT_DATA'']
      else [])"

definition predict :: "string option \<Rightarrow> bool option \<Rightarrow> string option \<Rightarrow> SubtractDP3 \<Rightarrow> SubtractDP3" where
  "predict sourcedb subtract h5parm st =
     st\<lparr>steps := steps st @ [''predict''],
        cmd := cmd st @ predict_tokens sourcedb h5parm @ subtract_tokens subtract\<rparr>"

subsection \<open>run\<close>

text \<open>
  \<^verbatim>\<open>
  for n, ms in enumerate(self.mslist):
      self.cmd += [f'msin={ms}', f'msout=sub_{ms}']
      dp3_cmd = open(f"dp3{type}_{n}.cmd", "w")
      dp3_cmd.write('\n'.join(self.cmd))
      dp3_cmd.close()
      check_output(' '.join(self.cmd), stderr=STDOUT, shell=True)
  self.cmd = ['DP3', 'msin.missingdata=True', 'msin.orderms=False',
              'msout.storagemanager=dysco']
  \<close>
  The files written are collected in order. The external tool is a parameter \<open>sh\<close>: it
  tells for a shell command line whether the tool exits with status zero; otherwise
  \<^verbatim>\<open>check_output\<close> raises, the loop stops and the reset after the loop is not reached.
\<close>

record cmd_file =
  fname :: string
  content :: string

record run_result =
  final :: SubtractDP3
  written :: "cmd_file list"
  raised :: "error option"

definition io_tokens :: "string \<Rightarrow> string list" where
  "io_tokens ms = [''msin='' @ ms, ''msout=sub_'' @ ms]"

definition cmd_file_of :: "string \<Rightarrow> nat \<Rightarrow> string list \<Rightarrow> cmd_file" where
  "cmd_file_of ty n toks =
     \<lparr>fname = ''dp3'' @ ty @ ''_'' @ str_nat n @ ''.cmd'', content = py_join newline toks\<rparr>"

fun run_loop :: "(string \<Rightarrow> bool) \<Rightarrow> string \<Rightarrow> (nat \<times> string) list
                   \<Rightarrow> SubtractDP3 \<Rightarrow> cmd_file list \<Rightarrow> run_result" where
  "run_loop sh ty [] st fs = \<lparr>final = st, written = fs, raised = None\<rparr>"
| "run_loop sh ty ((n, ms) # rest) st fs =
     (let st' = st\<lparr>cmd := cmd st @ io_tokens ms\<rparr>;
          fs' = fs @ [cmd_file_of ty n (cmd st')]
      in if sh (py_join '' '' (cmd st'))
         then run_loop sh ty rest st' fs'
         else \<lparr>final = st', written = fs', raised = Some CalledProcessError\<rparr>)"

definition run :: "(string \<Rightarrow> bool) \<Rightarrow> string \<Rightarrow> SubtractDP3 \<Rightarrow> run_result" where
  "run sh ty st =
     (let r = run_loop sh ty (enumerate 0 (mslist st)) st []
      in case raised r of
           None \<Rightarrow> r\<lparr>final := (final r)\<lparr>cmd := base_cmd\<rparr>\<rparr>
         | Some e \<Rightarrow> r)"

text \<open>An external tool that always exits with status zero, and the lines of a command file.\<close>

definition tool_succeeds :: "string \<Rightarrow> bool" where
  "tool_succeeds c = True"

definition file_lines :: "cmd_file \<Rightarrow> string list" where
  "file_lines f = split_on (CHR 0x0A) (content f)"

definition count_tokens :: "string \<Rightarrow> string list \<Rightarrow> nat" where
  "count_tokens p toks = length (filter (\<lambda>t. startswith t p) toks)"

text \<open>The I/O tokens of a list of enumerated measurement sets, in order.\<close>

definition pairs_of :: "(nat \<times> string) list \<Rightarrow> string list" where
  "pairs_of ps = concat (map io_tokens (map snd ps))"

subsection \<open>Character classes and integer conversion\<close>

text \<open>
  A character is a code point below 256, and the classes are Python's on that range.
  \<open>is_dec\<close> holds for the decimal digits \<open>0\<close> to \<open>9\<close>, the only digits \<^verbatim>\<open>int()\<close> accepts
  there; \<open>is_digit\<close> is \<^verbatim>\<open>isdigit()\<close> on one character, which also holds for the
  superscripts at 0xB2, 0xB3 and 0xB9; \<open>is_alpha\<close> is \<^verbatim>\<open>isalpha()\<close> on one character;
  \<open>is_space\<close> is the white space of \<^verbatim>\<open>str.split()\<close>; \<open>is_int_space\<close> is the white space
  \<^verbatim>\<open>int()\<close> skips at both ends of its argument, which does not include the separators
  0x1C to 0x1F.
\<close>

definition is_dec :: "char \<Rightarrow> bool" where
  "is_dec c = (c \<in> set ''0123456789'')"

definition is_digit :: "char \<Rightarrow> bool" where
  "is_digit c = (is_dec c \<or> c \<in> set [CHR 0xB2, CHR 0xB3, CHR 0xB9])"

definition is_alpha :: "char \<Rightarrow> bool" where
  "is_alpha c =
     (let n = (of_char c :: nat)
      in (65 \<le> n \<and> n \<le> 90) \<or> (97 \<le> n \<and> n \<le> 122) \<or> n = 170 \<or> n = 181 \<or> n = 186
         \<or> (192 \<le> n \<and> n \<le> 214) \<or> (216 \<le> n \<and> n \<le> 246) \<or> (248 \<le> n \<and> n \<le> 255))"

definition is_space :: "char \<Rightarrow> bool" where
  "is_space c = (c \<in> set [CHR 0x09, CHR 0x0A, CHR 0x0B, CHR 0x0C, CHR 0x0D,
                            CHR 0x1C, CHR 0x1D, CHR 0x1E, CHR 0x1F, CHR 0x20,
                            CHR 0x85, CHR 0xA0])"

definition is_int_space :: "char \<Rightarrow> bool" where
  "is_int_space c = (c \<in> set [CHR 0x09, CHR 0x0A, CHR 0x0B, CHR 0x0C, CHR 0x0D, CHR 0x20,
                                CHR 0x85, CHR 0xA0])"

text \<open>\<^verbatim>\<open>s.isdigit()\<close>, and the strings made of the decimal digits \<open>0\<close> to \<open>9\<close> only.\<close>

definition isdigit :: "string \<Rightarrow> bool" where
  "isdigit s = (s \<noteq> [] \<and> list_all is_digit s)"

definition purely_numeric :: "string \<Rightarrow> bool" where
  "purely_numeric s = (s \<noteq> [] \<and> list_all is_dec s)"

definition digit_val :: "char \<Rightarrow> nat" where
  "digit_val c = of_char c - 48"

definition dec_val :: "string \<Rightarrow> nat" where
  "dec_val s = foldl (\<lambda>a c. 10 * a + digit_val c) 0 s"

definition strip :: "string \<Rightarrow> string" where
  "strip s = rev (dropWhile is_int_space (rev (dropWhile is_int_space s)))"

text \<open>
  The digit part of an integer literal: digits, with single underscores allowed between
  digits only.
\<close>

fun no_double_underscore :: "string \<Rightarrow> bool" where
  "no_double_underscore (x # y # ys) =
     (\<not> (x = CHR ''_'' \<and> y = CHR ''_'') \<and> no_double_underscore (y # ys))"
| "no_double_underscore _ = True"

definition valid_digits :: "string \<Rightarrow> bool" where
  "valid_digits b =
     (b \<noteq> [] \<and> is_dec (hd b) \<and> is_dec (last b)
      \<and> list_all (\<lambda>c. is_dec c \<or> c = CHR ''_'') b \<and> no_double_underscore b)"

text \<open>
  CPython (from 3.11, and in the security releases of the older versions) refuses to convert
  between strings and integers of more than \<^verbatim>\<open>sys.int_info.default_max_str_digits\<close> digits;
  the underscores, the sign and the white space are not counted, leading zeros are.
\<close>

definition max_str_digits :: nat where
  "max_str_digits = 4300"

text \<open>
  \<^verbatim>\<open>int(s)\<close> on a string: white space at both ends, an optional sign, the digit part;
  \<open>None\<close> is the ValueError.
\<close>

definition py_int :: "string \<Rightarrow> int option" where
  "py_int s =
     (let t = strip s;
          neg = (t \<noteq> [] \<and> hd t = CHR ''-'');
          b = (if t \<noteq> [] \<and> (hd t = CHR ''-'' \<or> hd t = CHR ''+'') then tl t else t);
          d = filter is_dec b
      in if valid_digits b \<and> length d \<le> max_str_digits
         then Some ((if neg then - 1 else 1) * int (dec_val d))
         else None)"

text \<open>\<^verbatim>\<open>str(i)\<close> on an integer of any size; \<open>None\<close> is the ValueError of the digit limit.\<close>

definition py_str_int :: "int \<Rightarrow> string option" where
  "py_str_int i =
     (if max_str_digits < length (str_nat (nat \<bar>i\<bar>)) then None else Some (str_int i))"

subsection \<open>moreDP3\<close>

text \<open>
  An averaging argument is a string from the command line, or an integer when the wide-field
  branch computed it. \<open>str_avg\<close> is \<^verbatim>\<open>str(x)\<close> and \<open>int_avg\<close> is \<^verbatim>\<open>int(x)\<close>; \<open>int_token\<close>
  is the f-string \<^verbatim>\<open>f'key{int(x)}'\<close>.
\<close>

datatype avg_arg = AvgStr string | AvgInt int

fun str_avg :: "avg_arg \<Rightarrow> string option" where
  "str_avg (AvgStr s) = Some s"
| "str_avg (AvgInt i) = py_str_int i"

fun int_avg :: "avg_arg \<Rightarrow> int option" where
  "int_avg (AvgStr s) = py_int s"
| "int_avg (AvgInt i) = Some i"

definition int_token :: "string \<Rightarrow> avg_arg \<Rightarrow> error + string" where
  "int_token key x =
     (case int_avg x of
        None \<Rightarrow> Inl ValueError
      | Some n \<Rightarrow> (case py_str_int n of None \<Rightarrow> Inl ValueError | Some t \<Rightarrow> Inr (key @ t)))"

text \<open>
  \<^verbatim>\<open>
  if str(freqavg).isdigit() or not str(freqavg)[-1].isalpha():
      self.cmd += [f'avg.freqstep={int(freqavg)}']
  else:
      self.cmd += [f'avg.freqresolution={freqavg}']
  \<close>
  The index \<open>[-1]\<close> of an empty string raises IndexError.
\<close>

definition freq_token :: "avg_arg \<Rightarrow> error + string" where
  "freq_token freqavg =
     (case str_avg freqavg of
        None \<Rightarrow> Inl ValueError
      | Some s \<Rightarrow>
          if isdigit s then int_token ''avg.freqstep='' freqavg
          else if s = [] then Inl IndexError
          else if \<not> is_alpha (last s) then int_token ''avg.freqstep='' freqavg
          else Inr (''avg.freqresolution='' @ s))"

text \<open>
  \<^verbatim>\<open>
  if str(timeavg).isdigit():
      self.cmd += [f'avg.timestep={int(timeavg)}']
  else:
      self.cmd += [f'avg.timeresolution={timeavg}']
  \<close>
\<close>

definition time_token :: "avg_arg \<Rightarrow> error + string" where
  "time_token timeavg =
     (case str_avg timeavg of
        None \<Rightarrow> Inl ValueError
      | Some s \<Rightarrow>
          if isdigit s then int_token ''avg.timestep='' timeavg
          else Inr (''avg.timeresolution='' @ s))"

definition add_token :: "SubtractDP3 \<Rightarrow> error + string \<Rightarrow> error + SubtractDP3" where
  "add_token st t = (case t of Inl e \<Rightarrow> Inl e | Inr tok \<Rightarrow> Inr (st\<lparr>cmd := cmd st @ [tok]\<rparr>))"

definition and_then :: "error + 'a \<Rightarrow> ('a \<Rightarrow> error + 'b) \<Rightarrow> error + 'b" where
  "and_then r f = (case r of Inl e \<Rightarrow> Inl e | Inr x \<Rightarrow> f x)"

text \<open>Stage 4 of moreDP3, the averaging.\<close>

definition moreDP3_averaging :: "avg_arg option \<Rightarrow> avg_arg option \<Rightarrow> SubtractDP3 \<Rightarrow> error + SubtractDP3" where
  "moreDP3_averaging freqavg timeavg st =
     (if freqavg \<noteq> None \<or> timeavg \<noteq> None
      then and_then
             (case freqavg of
                None \<Rightarrow> Inr (st\<lparr>steps := steps st @ [''avg''], cmd := cmd st @ [''avg.type=averager'']\<rparr>)
              | Some f \<Rightarrow>
                  add_token (st\<lparr>steps := steps st @ [''avg''], cmd := cmd st @ [''avg.type=averager'']\<rparr>)
                    (freq_token f))
             (\<lambda>st'. case timeavg of None \<Rightarrow> Inr st' | Some t \<Rightarrow> add_token st' (time_token t))
      else Inr st)"

text \<open>
  Stage 1, the phase shift:
  \<^verbatim>\<open>
  phasecenter = phaseshift.replace('[', '').replace(']', '').split(',')
  phasecenter = f'[{phasecenter[0]},{phasecenter[1]}]'
  self.steps.append('ps')
  self.cmd += ['ps.type=phaseshifter', 'ps.phasecenter=' + phasecenter]
  \<close>
\<close>

definition moreDP3_phaseshift :: "string option \<Rightarrow> SubtractDP3 \<Rightarrow> error + SubtractDP3" where
  "moreDP3_phaseshift phaseshift st =
     (case phaseshift of
        None \<Rightarrow> Inr st
      | Some p \<Rightarrow>
          (let phasecenter = split_on (CHR '','') (remove_char (CHR '']'') (remove_char (CHR ''['') p))
           in if length phasecenter < 2 then Inl IndexError
              else Inr (st\<lparr>steps := steps st @ [''ps''],
                           cmd := cmd st @ [''ps.type=phaseshifter'',
                                            ''ps.phasecenter=['' @ phasecenter ! 0 @ '','' @ phasecenter ! 1 @ '']'']\<rparr>)))"

text \<open>Stage 2, the beam.\<close>

definition moreDP3_applybeam :: "bool \<Rightarrow> SubtractDP3 \<Rightarrow> SubtractDP3" where
  "moreDP3_applybeam applybeam st =
     (if applybeam
      then st\<lparr>steps := steps st @ [''beam''],
              cmd := cmd st @ [''beam.type=applybeam'', ''beam.direction=[]'', ''beam.updateweights=True'']\<rparr>
      else st)"

text \<open>
  Stage 3, the calibration. A solution file holds the solution tables of \<open>sol000\<close> in the
  order of \<^verbatim>\<open>T.root.sol000._v_groups.keys()\<close>; each has its name, the \<open>AXES\<close> attribute of
  its values and, when it has a \<open>pol\<close> array, the number of its entries
  (\<^verbatim>\<open>pol[:].shape[0]\<close>). The files on disk are a parameter \<open>h5files\<close>: the contents of the
  file at a path, \<open>None\<close> when \<^verbatim>\<open>tables.open_file\<close> fails.
  \<^verbatim>\<open>
  def isfulljones(h5):
      T = tables.open_file(h5)
      soltab = list(T.root.sol000._v_groups.keys())[0]
      if 'pol' in T.root.sol000._f_get_child(soltab).val.attrs["AXES"].decode('utf8'):
          if T.root.sol000._f_get_child(soltab).pol[:].shape[0] == 4:
              T.close()
              return True
      T.close()
      return False
  \<close>
\<close>

record soltab =
  soltab_name :: string
  axes :: string
  pol :: "nat option"

type_synonym h5parm = "soltab list"

definition isfulljones :: "(string \<Rightarrow> h5parm option) \<Rightarrow> string \<Rightarrow> error + bool" where
  "isfulljones h5files h5 =
     (case h5files h5 of
        None \<Rightarrow> Inl OSError
      | Some T \<Rightarrow>
          (case T of
             [] \<Rightarrow> Inl IndexError
           | s # _ \<Rightarrow>
               if py_in ''pol'' (axes s)
               then (case pol s of None \<Rightarrow> Inl NoSuchNodeError | Some n \<Rightarrow> Inr (n = 4))
               else Inr False))"

text \<open>
  \<^verbatim>\<open>
  ac_count = 0
  T = tables.open_file(applycal_h5)
  for corr in T.root.sol000._v_groups.keys():
      self.cmd += [f'ac{ac_count}.type=applycal', f'ac{ac_count}.parmdb={applycal_h5}',
                   f'ac{ac_count}.correction={corr}']
      self.steps.append(f'ac{ac_count}')
      ac_count += 1
  \<close>
\<close>

definition ac_tokens :: "string \<Rightarrow> nat \<Rightarrow> string \<Rightarrow> string list" where
  "ac_tokens h5 ac_count corr =
     [''ac'' @ str_nat ac_count @ ''.type=applycal'',
      ''ac'' @ str_nat ac_count @ ''.parmdb='' @ h5,
      ''ac'' @ str_nat ac_count @ ''.correction='' @ corr]"

fun applycal_loop :: "string \<Rightarrow> nat \<Rightarrow> string list \<Rightarrow> SubtractDP3 \<Rightarrow> SubtractDP3" where
  "applycal_loop h5 ac_count [] st = st"
| "applycal_loop h5 ac_count (corr # rest) st =
     applycal_loop h5 (Suc ac_count) rest
       (st\<lparr>cmd := cmd st @ ac_tokens h5 ac_count corr,
           steps := steps st @ [''ac'' @ str_nat ac_count]\<rparr>)"

definition moreDP3_applycal :: "(string \<Rightarrow> h5parm option) \<Rightarrow> string option \<Rightarrow> SubtractDP3 \<Rightarrow> error + SubtractDP3" where
  "moreDP3_applycal h5files applycal_h5 st =
     (case applycal_h5 of
        None \<Rightarrow> Inr st
      | Some h5 \<Rightarrow>
          and_then (isfulljones h5files h5)
            (\<lambda>fulljones.
               if fulljones
               then Inr (st\<lparr>steps := steps st @ [''ac''],
                            cmd := cmd st @ [''ac.type=applycal'', ''ac.parmdb='' @ h5,
                                             ''ac.correction=fulljones'',
                                             ''ac.soltab=[amplitude000,phase000]'']\<rparr>)
               else (case h5files h5 of
                       None \<Rightarrow> Inl OSError
                     | Some T \<Rightarrow> Inr (applycal_loop h5 0 (map soltab_name T) st))))"

text \<open>
  The end of moreDP3:
  \<^verbatim>\<open>
  self.cmd += ['steps=' + str(self.steps).replace(" ", "").replace("\'", "")]
  if concat:
      self.cmd += [f'msin={",".join(self.mslist)}', 'msout=subtract_concat.ms']
  else:
      for n, ms in enumerate(self.mslist):
          self.cmd+=[f'msin={ms}', f'msout=sub_{ms}']
  \<close>
  \<open>str_list\<close> is \<^verbatim>\<open>str(xs)\<close> on a list of strings that need no escaping, which holds for
  the step names the methods append (\<open>predict\<close>, \<open>ps\<close>, \<open>beam\<close>, \<open>ac\<close>, \<open>ac0\<close>, ..., \<open>avg\<close>).
\<close>

definition str_list :: "string list \<Rightarrow> string" where
  "str_list xs = ''['' @ py_join '', '' (map (\<lambda>s. [CHR 0x27] @ s @ [CHR 0x27]) xs) @ '']''"

definition steps_token :: "string list \<Rightarrow> string" where
  "steps_token xs = ''steps='' @ remove_char (CHR 0x27) (remove_char (CHR '' '') (str_list xs))"

definition moreDP3_io :: "bool \<Rightarrow> SubtractDP3 \<Rightarrow> SubtractDP3" where
  "moreDP3_io concat_ms st =
     (if concat_ms
      then st\<lparr>cmd := cmd st @ [''msin='' @ py_join '','' (mslist st), ''msout=subtract_concat.ms'']\<rparr>
      else st\<lparr>cmd := cmd st @ concat (map io_tokens (mslist st))\<rparr>)"

text \<open>
  moreDP3 as a whole: the \<open>msin.datacolumn\<close> token, the four stages in order, the steps token
  and the I/O tokens. The flags \<open>concat\<close> (here \<open>concat_ms\<close>) and \<open>applybeam\<close> default to \<^verbatim>\<open>None\<close>, which counts as false.
\<close>

definition moreDP3 :: "(string \<Rightarrow> h5parm option) \<Rightarrow> string option \<Rightarrow> avg_arg option \<Rightarrow> avg_arg option
    \<Rightarrow> bool \<Rightarrow> bool \<Rightarrow> string option \<Rightarrow> SubtractDP3 \<Rightarrow> error + SubtractDP3" where
  "moreDP3 h5files phaseshift freqavg timeavg concat_ms applybeam applycal_h5 st =
     and_then (moreDP3_phaseshift phaseshift (st\<lparr>cmd := cmd st @ [''msin.datacolumn=SUBTRACT_DATA'']\<rparr>))
       (\<lambda>st1. and_then (moreDP3_applycal h5files applycal_h5 (moreDP3_applybeam applybeam st1))
         (\<lambda>st3. and_then (moreDP3_averaging freqavg timeavg st3)
           (\<lambda>st4. Inr (moreDP3_io concat_ms (st4\<lparr>cmd := cmd st4 @ [steps_token (steps st4)]\<rparr>)))))"

text \<open>
  Two solution files for concrete runs: \<open>fj.h5\<close> has one solution table with four
  polarization entries, \<open>sol.h5\<close> has an amplitude and a phase table with two each.
\<close>

definition example_h5files :: "string \<Rightarrow> h5parm option" where
  "example_h5files p =
     (if p = ''fj.h5''
      then Some [\<lparr>soltab_name = ''amplitude000'', axes = ''time,freq,ant,dir,pol'', pol = Some 4\<rparr>]
      else if p = ''sol.h5''
      then Some [\<lparr>soltab_name = ''amplitude000'', axes = ''time,freq,ant,dir,pol'', pol = Some 2\<rparr>,
                 \<lparr>soltab_name = ''phase000'', axes = ''time,freq,ant,dir,pol'', pol = Some 2\<rparr>]
      else None)"

text \<open>The time-averaging token, when one is requested, is appended after the frequency one.\<close>

definition add_time_token :: "avg_arg option \<Rightarrow> SubtractDP3 \<Rightarrow> error + SubtractDP3" where
  "add_time_token timeavg st =
     (case timeavg of None \<Rightarrow> Inr st | Some t \<Rightarrow> add_token st (time_token t))"

section \<open>montecarlo\_results.py: the result-file collector\<close>

text \<open>
  The script reads, for each of three fields and two processing variants, every result file
  matched by a glob pattern, and appends six numbers per file to six lists. The six loops are
  the same up to the line the Pearson error is read from, so the model has one loop indexed by
  field and variant. A file is the list of its lines (\<^verbatim>\<open>f.readlines()\<close>).
\<close>

datatype field = A399 | A401 | Bridge

datatype variant = Rudnick | CB

text \<open>\<^verbatim>\<open>xs[i]\<close>: a negative index counts from the end, an index out of range raises.\<close>

definition py_index :: "'a list \<Rightarrow> int \<Rightarrow> error + 'a" where
  "py_index xs i =
     (if 0 \<le> i \<and> i < int (length xs) then Inr (xs ! nat i)
      else if i < 0 \<and> - int (length xs) \<le> i then Inr (xs ! nat (int (length xs) + i))
      else Inl IndexError)"

text \<open>\<^verbatim>\<open>s.split()\<close>: the maximal runs of characters that are not white space.\<close>

fun split_loop :: "string \<Rightarrow> string \<Rightarrow> string list" where
  "split_loop w [] = (if w = [] then [] else [w])"
| "split_loop w (c # cs) =
     (if is_space c then (if w = [] then split_loop [] cs else w # split_loop [] cs)
      else split_loop (w @ [c]) cs)"

definition py_split :: "string \<Rightarrow> string list" where
  "py_split s = split_loop [] s"

text \<open>\<^verbatim>\<open>s.replace(old, new)\<close> for a non-empty \<open>old\<close>: every occurrence, left to right.\<close>

function replace_all :: "string \<Rightarrow> string \<Rightarrow> string \<Rightarrow> string" where
  "replace_all old new [] = []"
| "replace_all old new (c # cs) =
     (if old \<noteq> [] \<and> startswith (c # cs) old
      then new @ replace_all old new (drop (length old) (c # cs))
      else c # replace_all old new cs)"
  by pat_completeness auto
termination
  by (relation "measure (\<lambda>(old, new, s). length s)") auto

text \<open>
  The text handed to \<^verbatim>\<open>float()\<close> for each of the six numbers:
  \<^verbatim>\<open>
  a399_pearson_cb.append(float(lines[-4].split()[0].replace('(','').replace(',','')))
  a399_pearson_cb_err.append(float(lines[-3].split()[-1]))
  a399_spearman_cb.append(float(lines[-2].split()[0].replace('(','').replace(',','')))
  a399_spearman_cb_err.append(float(lines[-1].split()[-1]))
  a399_results_cb.append(float(lines[3].replace('Linear regression slope is ', '').split()[0]))
  a399_cb_err.append(float(lines[3].replace('Linear regression slope is ', '').split()[-1]))
  \<close>
  The loops over \<open>a401_rudnick\<close> and \<open>bridge_rudnick\<close> differ in one place:
  \<^verbatim>\<open>a401_pearson_err.append(float(lines[-1].split()[-1]))\<close>.
\<close>

definition first_number :: "string list \<Rightarrow> int \<Rightarrow> error + string" where
  "first_number lines i =
     and_then (py_index lines i)
       (\<lambda>l. and_then (py_index (py_split l) 0)
          (\<lambda>t. Inr (remove_char (CHR '','') (remove_char (CHR ''('') t))))"

definition last_word :: "string list \<Rightarrow> int \<Rightarrow> error + string" where
  "last_word lines i =
     and_then (py_index lines i) (\<lambda>l. py_index (py_split l) (- 1))"

definition slope_words :: "string list \<Rightarrow> error + string list" where
  "slope_words lines =
     and_then (py_index lines 3)
       (\<lambda>l. Inr (py_split (replace_all ''Linear regression slope is '' [] l)))"

definition pearson_err_line :: "field \<Rightarrow> variant \<Rightarrow> int" where
  "pearson_err_line f v = (if v = Rudnick \<and> (f = A401 \<or> f = Bridge) then - 1 else - 3)"

definition pearson_text :: "string list \<Rightarrow> error + string" where
  "pearson_text lines = first_number lines (- 4)"

definition pearson_err_text :: "field \<Rightarrow> variant \<Rightarrow> string list \<Rightarrow> error + string" where
  "pearson_err_text f v lines = last_word lines (pearson_err_line f v)"

definition spearman_text :: "string list \<Rightarrow> error + string" where
  "spearman_text lines = first_number lines (- 2)"

definition spearman_err_text :: "string list \<Rightarrow> error + string" where
  "spearman_err_text lines = last_word lines (- 1)"

definition slope_text :: "string list \<Rightarrow> error + string" where
  "slope_text lines = and_then (slope_words lines) (\<lambda>ws. py_index ws 0)"

definition slope_err_text :: "string list \<Rightarrow> error + string" where
  "slope_err_text lines = and_then (slope_words lines) (\<lambda>ws. py_index ws (- 1))"

text \<open>
  The numbers of one file. Python's \<^verbatim>\<open>float()\<close> is a parameter \<open>to_float\<close>, \<open>None\<close> where it
  raises ValueError. Floating-point numbers are modelled as real numbers throughout: rounding
  and overflow are not part of the model.
\<close>

record measurement =
  slope :: real
  slope_err :: real
  pearson :: real
  pearson_err :: real
  spearman :: real
  spearman_err :: real

definition py_float :: "(string \<Rightarrow> real option) \<Rightarrow> error + string \<Rightarrow> error + real" where
  "py_float to_float t =
     and_then t (\<lambda>s. case to_float s of None \<Rightarrow> Inl ValueError | Some x \<Rightarrow> Inr x)"

definition parse_file :: "(string \<Rightarrow> real option) \<Rightarrow> field \<Rightarrow> variant \<Rightarrow> string list \<Rightarrow> error + measurement" where
  "parse_file to_float f v lines =
     and_then (py_float to_float (pearson_text lines)) (\<lambda>p.
     and_then (py_float to_float (pearson_err_text f v lines)) (\<lambda>pe.
     and_then (py_float to_float (spearman_text lines)) (\<lambda>s.
     and_then (py_float to_float (spearman_err_text lines)) (\<lambda>se.
     and_then (py_float to_float (slope_text lines)) (\<lambda>b.
     and_then (py_float to_float (slope_err_text lines)) (\<lambda>be.
       Inr \<lparr>slope = b, slope_err = be, pearson = p, pearson_err = pe,
            spearman = s, spearman_err = se\<rparr>))))))"

fun collect :: "(string \<Rightarrow> real option) \<Rightarrow> field \<Rightarrow> variant \<Rightarrow> string list list
                 \<Rightarrow> measurement list \<Rightarrow> error + measurement list" where
  "collect to_float f v [] acc = Inr acc"
| "collect to_float f v (lines # files) acc =
     and_then (parse_file to_float f v lines) (\<lambda>m. collect to_float f v files (acc @ [m]))"

text \<open>A result file in the fixed format, for concrete runs.\<close>

definition example_result_file :: "string list" where
  "example_result_file =
     [''Results for cell size 27'',
      ''Number of cells: 120'',
      ''Fit of radio against X-ray surface brightness'',
      ''Linear regression slope is 0.95 +- 0.05'',
      ''Pearson R (x vs y):'',
      ''(0.81, 0.0001)'',
      ''Pearson error +- 0.03'',
      ''(0.77, 0.0002)'',
      ''Spearman error +- 0.04'']"

section \<open>montecarlo\_results.py: the statistics aggregator\<close>

text \<open>
  numpy and scipy on lists of reals. A division by zero gives \<open>inf\<close> or \<open>nan\<close> in numpy;
  the real numbers have neither, so the model returns \<open>None\<close> where an intermediate value
  is not a finite number, and says nothing about the printed value there.
  \<open>np_mean\<close> is \<^verbatim>\<open>np.mean\<close>, \<open>sem\<close> is \<^verbatim>\<open>scipy.stats.sem\<close> (the sample standard deviation with
  one degree of freedom removed, over the square root of the sample size).
\<close>

definition np_mean :: "real list \<Rightarrow> real option" where
  "np_mean xs = (if xs = [] then None else Some (sum_list xs / real (length xs)))"

definition sem :: "real list \<Rightarrow> real option" where
  "sem xs =
     (if length xs < 2 then None
      else Some (sqrt (sum_list (map (\<lambda>x. (x - sum_list xs / real (length xs))\<^sup>2) xs)
                       / real (length xs - 1))
                 / sqrt (real (length xs))))"

text \<open>
  \<^verbatim>\<open>
  def uncertainty(d_err):
      unc = 1/np.power(d_err, 2)
      return np.sqrt(1/np.sum(unc))
  \<close>
\<close>

definition uncertainty :: "real list \<Rightarrow> real option" where
  "uncertainty d_err =
     (if d_err = [] \<or> 0 \<in> set d_err then None
      else Some (sqrt (1 / sum_list (map (\<lambda>e. 1 / e\<^sup>2) d_err))))"

text \<open>
  The value printed for a slope, and for the combined Pearson and Spearman lines:
  \<^verbatim>\<open>np.sum(np.divide(vals, np.power(errs, 2)))/np.sum(1/np.power(errs,2))\<close>.
  The two lists have the same length at every call, since each file appends to both.
\<close>

definition weighted_mean :: "real list \<Rightarrow> real list \<Rightarrow> real option" where
  "weighted_mean vals errs =
     (if length vals \<noteq> length errs \<or> errs = [] \<or> 0 \<in> set errs then None
      else Some (sum_list (map2 (\<lambda>v e. v / e\<^sup>2) vals errs)
                 / sum_list (map (\<lambda>e. 1 / e\<^sup>2) errs)))"

text \<open>
  The uncertainty printed for a per-variant slope:
  \<^verbatim>\<open>sem(vals)*np.sqrt(np.sum(np.power(errs/np.sum(np.power(errs, 2)), 2)))\<close>.
\<close>

definition variant_uncertainty :: "real list \<Rightarrow> real list \<Rightarrow> real option" where
  "variant_uncertainty vals errs =
     (case sem vals of
        None \<Rightarrow> None
      | Some s \<Rightarrow>
          if sum_list (map (\<lambda>e. e\<^sup>2) errs) = 0 then None
          else Some (s * sqrt (sum_list (map (\<lambda>e. (e / sum_list (map (\<lambda>e. e\<^sup>2) errs))\<^sup>2) errs))))"

text \<open>
  A printed line is a value and its uncertainty; a block of the report has the three lines of
  one field. The per-variant block (under \<open>UV-Subtract:\<close> and \<open>Rudnick:\<close>):
  \<^verbatim>\<open>
  print(f'Slope A399: {weighted mean of the slopes} +- {sem(...)*np.sqrt(...)}')
  print(f'Pearson R A399: {np.mean(a399_pearson_cb)} +- {sem(a399_pearson_cb)}')
  print(f'Spearman R A399: {np.mean(a399_spearman_cb)} +- {sem(a399_spearman_cb)}')
  \<close>
  The block under \<open>Total:\<close> joins the Rudnick lists and the UV-subtract lists, in this order:
  \<^verbatim>\<open>
  print(f'Slope A399: {weighted mean of a399_tot, a399_err} +- {uncertainty(a399_err)}')
  print(f'Pearson R A399: {weighted mean of a399_pearson_tot, a399_pearson_err} +- '
        f'{uncertainty(a399_pearson_err)}')
  print(f'Spearman R A399: {weighted mean of a399_spearman_tot, a399_spearman_err} +- '
        f'{uncertainty(a399_spearman_err)}')
  \<close>
\<close>

record estimate =
  printed :: "real option"
  plus_minus :: "real option"

record block =
  slope_line :: estimate
  pearson_line :: estimate
  spearman_line :: estimate

definition variant_block :: "measurement list \<Rightarrow> block" where
  "variant_block ms =
     \<lparr>slope_line =
        \<lparr>printed = weighted_mean (map slope ms) (map slope_err ms),
         plus_minus = variant_uncertainty (map slope ms) (map slope_err ms)\<rparr>,
      pearson_line =
        \<lparr>printed = np_mean (map pearson ms), plus_minus = sem (map pearson ms)\<rparr>,
      spearman_line =
        \<lparr>printed = np_mean (map spearman ms), plus_minus = sem (map spearman ms)\<rparr>\<rparr>"

definition total_block :: "measurement list \<Rightarrow> measurement list \<Rightarrow> block" where
  "total_block rudnick cb =
     \<lparr>slope_line =
        \<lparr>printed = weighted_mean (map slope rudnick @ map slope cb)
                                  (map slope_err rudnick @ map slope_err cb),
         plus_minus = uncertainty (map slope_err rudnick @ map slope_err cb)\<rparr>,
      pearson_line =
        \<lparr>printed = weighted_mean (map pearson rudnick @ map pearson cb)
                                  (map pearson_err rudnick @ map pearson_err cb),
         plus_minus = uncertainty (map pearson_err rudnick @ map pearson_err cb)\<rparr>,
      spearman_line =
        \<lparr>printed = weighted_mean (map spearman rudnick @ map spearman cb)
                                  (map spearman_err rudnick @ map spearman_err cb),
         plus_minus = uncertainty (map spearman_err rudnick @ map spearman_err cb)\<rparr>\<rparr>"

text \<open>
  The whole report for the collected data: one per-variant block for each field and variant,
  one total block for each field.
\<close>

definition print_variant :: "(field \<Rightarrow> variant \<Rightarrow> measurement list) \<Rightarrow> variant \<Rightarrow> field \<Rightarrow> block" where
  "print_variant data v f = variant_block (data f v)"

definition print_total :: "(field \<Rightarrow> variant \<Rightarrow> measurement list) \<Rightarrow> field \<Rightarrow> block" where
  "print_total data f = total_block (data f Rudnick) (data f CB)"

text \<open>
  The formulas in the words of the specification, over indexed values \<open>v\<^sub>i\<close> with errors
  \<open>e\<^sub>i\<close>, \<open>i < n\<close>.
\<close>

definition inverse_variance_mean :: "nat \<Rightarrow> (nat \<Rightarrow> real) \<Rightarrow> (nat \<Rightarrow> real) \<Rightarrow> real" where
  "inverse_variance_mean n v e = (\<Sum>i<n. v i / (e i)\<^sup>2) / (\<Sum>i<n. 1 / (e i)\<^sup>2)"

definition combined_uncertainty :: "nat \<Rightarrow> (nat \<Rightarrow> real) \<Rightarrow> real" where
  "combined_uncertainty n e = sqrt (1 / (\<Sum>i<n. 1 / (e i)\<^sup>2))"

definition plain_mean :: "nat \<Rightarrow> (nat \<Rightarrow> real) \<Rightarrow> real" where
  "plain_mean n v = (\<Sum>i<n. v i) / real n"

definition standard_error :: "nat \<Rightarrow> (nat \<Rightarrow> real) \<Rightarrow> real" where
  "standard_error n v = sqrt ((\<Sum>i<n. (v i - plain_mean n v)\<^sup>2) / real (n - 1)) / sqrt (real n)"

text \<open>Collected data for concrete runs: two Rudnick files and one UV-subtract file per field.\<close>

definition example_measurement :: "real \<Rightarrow> real \<Rightarrow> measurement" where
  "example_measurement x e =
     \<lparr>slope = x, slope_err = e, pearson = x, pearson_err = e, spearman = x, spearman_err = e\<rparr>"

definition example_data :: "field \<Rightarrow> variant \<Rightarrow> measurement list" where
  "example_data f v =
     (if v = Rudnick then [example_measurement 1 1, example_measurement 2 1]
      else [example_measurement 3 2])"

section \<open>Properties of the largest divider\<close>

lemma divider_loop_finds:
  assumes "0 \<notin> set xs" and "\<exists>x \<in> set xs. x dvd inp"
  shows "\<exists>r. divider_loop inp (xs @ ys) = Inr r \<and> r \<in> set xs \<and> r dvd inp"
  using assms by (induction xs) (auto simp: mod_eq_0_iff_dvd)

lemma divider_loop_skips:
  assumes "divider_loop inp xs = Inr r"
  shows "\<exists>ys zs. xs = ys @ r # zs \<and> (\<forall>d \<in> set ys. \<not> d dvd inp) \<and> r \<noteq> 0 \<and> r dvd inp"
  using assms
proof (induction xs)
  case Nil
  then show ?case by simp
next
  case (Cons x xs)
  show ?case
  proof (cases "x \<noteq> 0 \<and> \<not> x dvd inp")
    case True
    with Cons.prems have "divider_loop inp xs = Inr r"
      by (simp add: mod_eq_0_iff_dvd)
    from Cons.IH [OF this] obtain ys zs where
      "xs = ys @ r # zs" "\<forall>d \<in> set ys. \<not> d dvd inp" "r \<noteq> 0" "r dvd inp"
      by blast
    with True have "x # xs = (x # ys) @ r # zs \<and> (\<forall>d \<in> set (x # ys). \<not> d dvd inp)
        \<and> r \<noteq> 0 \<and> r dvd inp"
      by simp
    then show ?thesis by blast
  next
    case False
    with Cons.prems have "x = r \<and> r \<noteq> 0 \<and> r dvd inp"
      by (auto simp: mod_eq_0_iff_dvd split: if_splits)
    then have "x # xs = [] @ r # xs \<and> (\<forall>d \<in> set []. \<not> d dvd inp) \<and> r \<noteq> 0 \<and> r dvd inp"
      by simp
    then show ?thesis by blast
  qed
qed

lemma range_reversed: "2 \<le> mx \<Longrightarrow> rev [0..mx - 1] = rev [1..mx - 1] @ [0]"
  by (subst upto_rec1) simp_all

lemma get_largest_divider_largest:
  assumes "get_largest_divider inp mx = Inr r"
  shows "1 \<le> r \<and> r < mx \<and> r dvd inp \<and> (\<forall>d. r < d \<and> d < mx \<longrightarrow> \<not> d dvd inp)"
proof -
  from assms have run: "divider_loop inp (rev [0..mx - 1]) = Inr r"
    by (simp add: get_largest_divider_def)
  from divider_loop_skips [OF run] obtain ys zs where
    split: "rev [0..mx - 1] = ys @ r # zs" and skip: "\<forall>d \<in> set ys. \<not> d dvd inp"
    and nz: "r \<noteq> 0" and dv: "r dvd inp"
    by blast
  from split have mem: "r \<in> set [0..mx - 1]"
    by (metis in_set_conv_decomp set_rev)
  with nz have bounds: "1 \<le> r \<and> r < mx" by auto
  have "sorted (rev (ys @ r # zs))" and "distinct (ys @ r # zs)"
    using split by (metis rev_rev_ident sorted_upto, metis distinct_rev distinct_upto)
  then have above: "\<forall>y \<in> set ys. r < y" and below: "\<forall>z \<in> set zs. z < r"
    by (auto simp: sorted_append less_le)
  have "\<not> d dvd inp" if "r < d" "d < mx" for d
  proof -
    from that bounds have "d \<in> set [0..mx - 1]" by auto
    then have "d \<in> set (ys @ r # zs)" using split by (metis set_rev)
    with that(1) below have "d \<in> set ys" by auto
    with skip show ?thesis by blast
  qed
  with bounds dv show ?thesis by blast
qed

text \<open>
  Claim C10. For every \<open>inp \<ge> 1\<close> and \<open>max \<ge> 2\<close> the call returns some \<open>r\<close> with
  \<open>1 \<le> r \<le> max - 1\<close> that divides \<open>inp\<close>: neither the \<^verbatim>\<open>sys.exit\<close> branch nor
  the modulo by zero is reached. The bound on \<open>max\<close> is needed: with \<open>max = 1\<close> the only
  iteration is \<open>r = 0\<close> and the modulo raises ZeroDivisionError.
\<close>

theorem get_largest_divider_returns:
  "(1 \<le> inp \<and> 2 \<le> mx \<longrightarrow>
      (\<exists>r. get_largest_divider inp mx = Inr r \<and> 1 \<le> r \<and> r \<le> mx - 1 \<and> inp mod r = 0))
   \<and> get_largest_divider inp 1 = Inl ZeroDivisionError"
proof (intro conjI impI)
  assume pre: "1 \<le> inp \<and> 2 \<le> mx"
  let ?xs = "rev [1..mx - 1]"
  from pre have one: "(1::int) \<in> set ?xs" by simp
  have nz: "0 \<notin> set ?xs" by simp
  have "(1::int) dvd inp" by simp
  with one have ex: "\<exists>x \<in> set ?xs. x dvd inp" by (rule bexI [rotated])
  from divider_loop_finds [OF nz ex, of "[0]"] obtain r where
    found: "divider_loop inp (?xs @ [0]) = Inr r \<and> r \<in> set ?xs \<and> r dvd inp" ..
  from pre have "rev [0..mx - 1] = ?xs @ [0]" by (simp add: range_reversed)
  with found have "get_largest_divider inp mx = Inr r"
    by (simp only: get_largest_divider_def)
  moreover from found have "1 \<le> r \<and> r \<le> mx - 1" by simp
  moreover from found have "inp mod r = 0" by (simp add: mod_eq_0_iff_dvd)
  ultimately have "get_largest_divider inp mx = Inr r \<and> 1 \<le> r \<and> r \<le> mx - 1 \<and> inp mod r = 0"
    by (intro conjI) (erule conjunct1 conjunct2 | assumption)+
  then show "\<exists>r. get_largest_divider inp mx = Inr r \<and> 1 \<le> r \<and> r \<le> mx - 1 \<and> inp mod r = 0" ..
next
  show "get_largest_divider inp 1 = Inl ZeroDivisionError"
    by (simp add: get_largest_divider_def)
qed

theorem get_largest_divider_returns_witness:
  "(1::int) \<le> 64 \<and> (2::int) \<le> 10
   \<and> (\<exists>r. get_largest_divider 64 10 = Inr r \<and> 1 \<le> r \<and> r \<le> 10 - 1 \<and> 64 mod r = 0)
   \<and> get_largest_divider 64 1 = Inl ZeroDivisionError"
  using get_largest_divider_returns [of 64 10] by simp

text \<open>
  Claim C3. The wide-field averaging factor is meant to be the largest divisor of the channel
  count that does not exceed the requested factor. The search starts at \<open>max - 1\<close>, so a
  requested factor that itself divides the channel count is skipped: for 64 channels a request
  of 10 gives 8, but a request of 8 gives 4, and a request of 1 ends in the modulo by zero.
\<close>

theorem forwidefield_freqavg_excludes_request:
  "forwidefield_freqavg 64 10 = Inr 8
   \<and> forwidefield_freqavg 64 8 = Inr 4
   \<and> forwidefield_freqavg 64 1 = Inl ZeroDivisionError"
  by code_simp

section \<open>Properties of run\<close>


lemma str_nat_0: "str_nat 0 = ''0''"
  by (simp add: str_nat.simps digit_char_def)

lemma str_nat_1: "str_nat (Suc 0) = ''1''"
  by (simp add: str_nat.simps digit_char_def)

lemma run_loop_keeps:
  "steps (final (run_loop sh ty ps st fs)) = steps st
   \<and> mslist (final (run_loop sh ty ps st fs)) = mslist st"
  by (induction ps arbitrary: st fs) (auto simp: Let_def)

lemma run_loop_succeeds:
  assumes "\<forall>c. sh c"
  shows "raised (run_loop sh ty ps st fs) = None
   \<and> cmd (final (run_loop sh ty ps st fs)) = cmd st @ pairs_of ps
   \<and> length (written (run_loop sh ty ps st fs)) = length fs + length ps"
  using assms
  by (induction ps arbitrary: st fs) (auto simp: Let_def pairs_of_def)

lemma run_loop_append:
  assumes "\<forall>c. sh c"
  shows "run_loop sh ty (ps @ qs) st fs =
         run_loop sh ty qs (final (run_loop sh ty ps st fs)) (written (run_loop sh ty ps st fs))"
  using assms
  by (induction ps arbitrary: st fs) (auto simp: Let_def)

lemma run_loop_extends:
  "\<exists>gs. written (run_loop sh ty ps st fs) = fs @ gs"
proof (induction ps arbitrary: st fs)
  case Nil
  then show ?case by simp
next
  case (Cons p ps)
  obtain n ms where p: "p = (n, ms)" by (cases p)
  let ?st = "st\<lparr>cmd := cmd st @ io_tokens ms\<rparr>"
  let ?f = "cmd_file_of ty n (cmd ?st)"
  from Cons.IH [of ?st "fs @ [?f]"] obtain gs where
    "written (run_loop sh ty ps ?st (fs @ [?f])) = fs @ ?f # gs" by auto
  with p show ?case by (auto simp: Let_def)
qed

lemma run_loop_file:
  assumes "\<forall>c. sh c" and "k < length ps"
  shows "written (run_loop sh ty ps st fs) ! (length fs + k) =
         cmd_file_of ty (fst (ps ! k)) (cmd st @ pairs_of (take (Suc k) ps))"
  using assms
proof (induction ps arbitrary: st fs k)
  case Nil
  then show ?case by simp
next
  case (Cons p ps)
  obtain n ms where p: "p = (n, ms)" by (cases p)
  let ?st = "st\<lparr>cmd := cmd st @ io_tokens ms\<rparr>"
  let ?fs = "fs @ [cmd_file_of ty n (cmd ?st)]"
  from Cons.prems(1) p have unfold: "run_loop sh ty (p # ps) st fs = run_loop sh ty ps ?st ?fs"
    by (simp add: Let_def)
  show ?case
  proof (cases k)
    case 0
    obtain gs where "written (run_loop sh ty ps ?st ?fs) = ?fs @ gs"
      using run_loop_extends by blast
    then have "written (run_loop sh ty ps ?st ?fs) ! length fs = cmd_file_of ty n (cmd ?st)"
      by (simp add: nth_append)
    with 0 p unfold show ?thesis by (simp add: pairs_of_def)
  next
    case (Suc j)
    with Cons.prems have "j < length ps" by simp
    from Cons.IH [OF Cons.prems(1) this, of ?st ?fs] Suc p unfold
    show ?thesis by (simp add: pairs_of_def)
  qed
qed


lemma pairs_of_enumerate: "pairs_of (take k (enumerate n ms)) = concat (map io_tokens (take k ms))"
  by (simp add: pairs_of_def take_map [symmetric])

text \<open>
  Claim C1 (as the code has it). With two measurement sets \<open>a\<close> and \<open>b\<close>, predict followed
  by run, and an external tool that succeeds, exactly two command files are written, named
  after the positions 0 and 1. Both start with the base template and the predict tokens
  (which include predict's own \<open>msout=.\<close>) and both end with the I/O pair of their own
  measurement set. The first file holds one \<open>msin=\<close> token; the second file is written from
  the token list the first iteration left behind, so it holds the pair of \<open>a\<close> before the
  pair of \<open>b\<close>.
\<close>

theorem predict_run_two_files:
  assumes "\<forall>c. sh c"
  shows "run sh ty (predict sourcedb subtract h5parm (init [a, b])) =
     \<lparr>final = \<lparr>mslist = [a, b], cmd = base_cmd, steps = [''predict'']\<rparr>,
      written =
        [\<lparr>fname = ''dp3'' @ ty @ ''_0.cmd'',
          content = py_join newline
            (base_cmd @ predict_tokens sourcedb h5parm @ subtract_tokens subtract @ io_tokens a)\<rparr>,
         \<lparr>fname = ''dp3'' @ ty @ ''_1.cmd'',
          content = py_join newline
            (base_cmd @ predict_tokens sourcedb h5parm @ subtract_tokens subtract
               @ io_tokens a @ io_tokens b)\<rparr>],
      raised = None\<rparr>
   \<and> count_tokens ''msin=''
        (base_cmd @ predict_tokens sourcedb h5parm @ subtract_tokens subtract @ io_tokens a) = 1"
proof
  show "run sh ty (predict sourcedb subtract h5parm (init [a, b])) =
     \<lparr>final = \<lparr>mslist = [a, b], cmd = base_cmd, steps = [''predict'']\<rparr>,
      written =
        [\<lparr>fname = ''dp3'' @ ty @ ''_0.cmd'',
          content = py_join newline
            (base_cmd @ predict_tokens sourcedb h5parm @ subtract_tokens subtract @ io_tokens a)\<rparr>,
         \<lparr>fname = ''dp3'' @ ty @ ''_1.cmd'',
          content = py_join newline
            (base_cmd @ predict_tokens sourcedb h5parm @ subtract_tokens subtract
               @ io_tokens a @ io_tokens b)\<rparr>],
      raised = None\<rparr>"
    using assms
    by (simp add: run_def predict_def init_def Let_def cmd_file_of_def str_nat_0 str_nat_1)
next
  show "count_tokens ''msin=''
        (base_cmd @ predict_tokens sourcedb h5parm @ subtract_tokens subtract @ io_tokens a) = 1"
    by (simp add: count_tokens_def startswith_def base_cmd_def predict_tokens_def
        subtract_tokens_def io_tokens_def)
qed

theorem predict_run_two_files_witness:
  "map fname (written (run tool_succeeds ''predict''
      (predict (Some ''sky.db'') (Some True) (Some ''sol.h5'') (init [''a.ms'', ''b.ms''])))) =
     [''dp3predict_0.cmd'', ''dp3predict_1.cmd'']
   \<and> raised (run tool_succeeds ''predict''
      (predict (Some ''sky.db'') (Some True) (Some ''sol.h5'') (init [''a.ms'', ''b.ms'']))) = None"
  using predict_run_two_files [of tool_succeeds "''predict''" "Some ''sky.db''" "Some True"
      "Some ''sol.h5''" "''a.ms''" "''b.ms''"]
  by (simp add: tool_succeeds_def)

text \<open>
  Claim C1 as stated fails: the second command file holds two \<open>msin=\<close> tokens and two
  \<open>msout=sub_\<close> tokens, and already the first file holds two tokens starting with
  \<open>msout=\<close>.
\<close>

theorem second_file_two_pairs:
  "count_tokens ''msin='' (file_lines (written (run tool_succeeds ''predict''
      (predict (Some ''sky.db'') (Some True) (Some ''sol.h5'') (init [''a.ms'', ''b.ms''])) ) ! 1)) = 2
   \<and> count_tokens ''msout=sub_'' (file_lines (written (run tool_succeeds ''predict''
      (predict (Some ''sky.db'') (Some True) (Some ''sol.h5'') (init [''a.ms'', ''b.ms''])) ) ! 1)) = 2
   \<and> count_tokens ''msout='' (file_lines (written (run tool_succeeds ''predict''
      (predict (Some ''sky.db'') (Some True) (Some ''sol.h5'') (init [''a.ms'', ''b.ms''])) ) ! 0)) = 2"
  by code_simp

text \<open>
  Claim C2 (as the code has it). run resets the token list to the base template once, after
  the loop over all measurement sets. Inside the loop nothing is reset: the file of measurement
  set \<open>k\<close> is written from the token list at entry followed by the I/O pairs of the
  measurement sets \<open>0..k\<close>.
\<close>

theorem run_resets_once:
  assumes "\<forall>c. sh c"
  shows "raised (run sh ty st) = None
   \<and> cmd (final (run sh ty st)) = base_cmd
   \<and> length (written (run sh ty st)) = length (mslist st)
   \<and> (\<forall>k < length (mslist st).
        written (run sh ty st) ! k =
        cmd_file_of ty k (cmd st @ concat (map io_tokens (take (Suc k) (mslist st)))))"
proof -
  let ?r = "run_loop sh ty (enumerate 0 (mslist st)) st []"
  from run_loop_succeeds [OF assms] have ok: "raised ?r = None"
    and len: "length (written ?r) = length (mslist st)"
    by simp_all
  from ok have run: "run sh ty st = ?r\<lparr>final := (final ?r)\<lparr>cmd := base_cmd\<rparr>\<rparr>"
    by (simp add: run_def Let_def)
  have files: "written ?r ! k = cmd_file_of ty k (cmd st @ concat (map io_tokens (take (Suc k) (mslist st))))"
    if "k < length (mslist st)" for k
    using run_loop_file [OF assms, of k "enumerate 0 (mslist st)" ty st "[]"] that
    by (simp add: pairs_of_enumerate nth_enumerate_eq)
  from run ok len files show ?thesis by simp
qed


theorem run_resets_once_witness:
  "cmd (final (run tool_succeeds ''predict'' (init [''a.ms'', ''b.ms'']))) = base_cmd
   \<and> (1::nat) < length (mslist (init [''a.ms'', ''b.ms'']))
   \<and> written (run tool_succeeds ''predict'' (init [''a.ms'', ''b.ms''])) ! 1 =
       cmd_file_of ''predict'' 1 (base_cmd @ io_tokens ''a.ms'' @ io_tokens ''b.ms'')"
  using run_resets_once [of tool_succeeds "''predict''" "init [''a.ms'', ''b.ms'']"]
  by (simp add: tool_succeeds_def init_def)

text \<open>
  Claim C2 as stated fails: after the first measurement set's invocation the token list is the
  base template followed by that measurement set's pair, and the second iteration starts from
  it; the second file is not the one a reset would give. The step list is not reset at all
  (see \<open>run_loop_keeps\<close>): after predict and run it still holds \<open>predict\<close>.
\<close>

theorem no_reset_between_measurement_sets:
  "cmd (final (run_loop tool_succeeds ''predict'' [(0, ''a.ms'')] (init [''a.ms'', ''b.ms'']) []))
     = base_cmd @ [''msin=a.ms'', ''msout=sub_a.ms'']
   \<and> cmd (final (run_loop tool_succeeds ''predict'' [(0, ''a.ms'')] (init [''a.ms'', ''b.ms'']) []))
     \<noteq> base_cmd
   \<and> run_loop tool_succeeds ''predict'' (enumerate 0 [''a.ms'', ''b.ms'']) (init [''a.ms'', ''b.ms'']) []
     = run_loop tool_succeeds ''predict'' [(1, ''b.ms'')]
         (final (run_loop tool_succeeds ''predict'' [(0, ''a.ms'')] (init [''a.ms'', ''b.ms'']) []))
         (written (run_loop tool_succeeds ''predict'' [(0, ''a.ms'')] (init [''a.ms'', ''b.ms'']) []))
   \<and> content (written (run tool_succeeds ''predict'' (init [''a.ms'', ''b.ms''])) ! 1)
     \<noteq> py_join newline (base_cmd @ io_tokens ''b.ms'')
   \<and> steps (final (run tool_succeeds ''predict''
        (predict (Some ''sky.db'') (Some True) (Some ''sol.h5'') (init [''a.ms'', ''b.ms''])))) =
       [''predict'']"
  by code_simp

section \<open>Properties of moreDP3\<close>


lemma applycal_loop_result:
  "applycal_loop h5 n cs st =
     st\<lparr>cmd := cmd st @ concat (map (\<lambda>(i, c). ac_tokens h5 i c) (enumerate n cs)),
        steps := steps st @ map (\<lambda>i. ''ac'' @ str_nat i) [n..<n + length cs]\<rparr>"
proof (induction cs arbitrary: n st)
  case Nil
  then show ?case by simp
next
  case (Cons c cs)
  have "[n..<n + length (c # cs)] = n # [Suc n..<Suc n + length cs]"
    by (subst upt_rec) simp
  with Cons.IH show ?case by simp
qed

lemma enumerate_names:
  "map (\<lambda>(i, c). ac_tokens h5 i c) (enumerate n (map soltab_name ts)) =
   map (\<lambda>(i, t). ac_tokens h5 i (soltab_name t)) (enumerate n ts)"
  by (induction ts arbitrary: n) simp_all

text \<open>
  Claim C6. When the first solution table of the file has a polarization axis with 4 entries,
  the calibration stage appends exactly one step \<open>ac\<close> with \<open>correction=fulljones\<close>. When it
  has fewer entries, the stage appends one step per solution table of the file, named
  \<open>ac0\<close>, \<open>ac1\<close>, ... in the order of the tables, each with its three tokens and the
  correction set to the table's name.
\<close>

theorem applycal_fulljones_or_per_correlation:
  assumes "h5files solfile = Some (s # ss)" and "py_in ''pol'' (axes s)"
  shows "(pol s = Some 4 \<longrightarrow>
            moreDP3_applycal h5files (Some solfile) st =
              Inr (st\<lparr>steps := steps st @ [''ac''],
                      cmd := cmd st @ [''ac.type=applycal'', ''ac.parmdb='' @ solfile,
                                       ''ac.correction=fulljones'',
                                       ''ac.soltab=[amplitude000,phase000]'']\<rparr>))
       \<and> (\<forall>n. pol s = Some n \<and> n < 4 \<longrightarrow>
            moreDP3_applycal h5files (Some solfile) st =
              Inr (st\<lparr>steps := steps st @ map (\<lambda>i. ''ac'' @ str_nat i) [0..<length (s # ss)],
                      cmd := cmd st @ concat (map (\<lambda>(i, t).
                               [''ac'' @ str_nat i @ ''.type=applycal'',
                                ''ac'' @ str_nat i @ ''.parmdb='' @ solfile,
                                ''ac'' @ str_nat i @ ''.correction='' @ soltab_name t])
                             (enumerate 0 (s # ss)))\<rparr>))"
proof (intro conjI allI impI)
  assume "pol s = Some 4"
  with assms have "isfulljones h5files solfile = Inr True"
    by (simp add: isfulljones_def)
  then show "moreDP3_applycal h5files (Some solfile) st =
      Inr (st\<lparr>steps := steps st @ [''ac''],
              cmd := cmd st @ [''ac.type=applycal'', ''ac.parmdb='' @ solfile,
                               ''ac.correction=fulljones'',
                               ''ac.soltab=[amplitude000,phase000]'']\<rparr>)"
    by (simp add: moreDP3_applycal_def and_then_def)
next
  fix n
  assume "pol s = Some n \<and> n < 4"
  with assms have "isfulljones h5files solfile = Inr False"
    by (simp add: isfulljones_def)
  moreover have "concat (map (\<lambda>(i, c). ac_tokens solfile i c) (enumerate 0 (map soltab_name (s # ss)))) =
      concat (map (\<lambda>(i, t).
           [''ac'' @ str_nat i @ ''.type=applycal'',
            ''ac'' @ str_nat i @ ''.parmdb='' @ solfile,
            ''ac'' @ str_nat i @ ''.correction='' @ soltab_name t])
         (enumerate 0 (s # ss)))"
    by (subst enumerate_names) (simp only: ac_tokens_def)
  ultimately show "moreDP3_applycal h5files (Some solfile) st =
      Inr (st\<lparr>steps := steps st @ map (\<lambda>i. ''ac'' @ str_nat i) [0..<length (s # ss)],
              cmd := cmd st @ concat (map (\<lambda>(i, t).
                       [''ac'' @ str_nat i @ ''.type=applycal'',
                        ''ac'' @ str_nat i @ ''.parmdb='' @ solfile,
                        ''ac'' @ str_nat i @ ''.correction='' @ soltab_name t])
                     (enumerate 0 (s # ss)))\<rparr>)"
    using assms(1)
    by (simp add: moreDP3_applycal_def and_then_def applycal_loop_result del: upt_Suc enumerate_simps applycal_loop.simps)
qed


theorem applycal_fulljones_or_per_correlation_witness:
  "moreDP3_applycal example_h5files (Some ''fj.h5'') (init [''a.ms'']) =
     Inr \<lparr>mslist = [''a.ms''],
          cmd = base_cmd @ [''ac.type=applycal'', ''ac.parmdb=fj.h5'', ''ac.correction=fulljones'',
                            ''ac.soltab=[amplitude000,phase000]''],
          steps = [''ac'']\<rparr>
   \<and> moreDP3_applycal example_h5files (Some ''sol.h5'') (init [''a.ms'']) =
     Inr \<lparr>mslist = [''a.ms''],
          cmd = base_cmd @ [''ac0.type=applycal'', ''ac0.parmdb=sol.h5'',
                            ''ac0.correction=amplitude000'',
                            ''ac1.type=applycal'', ''ac1.parmdb=sol.h5'',
                            ''ac1.correction=phase000''],
          steps = [''ac0'', ''ac1'']\<rparr>"
proof
  have files: "example_h5files ''fj.h5'' =
      Some (\<lparr>soltab_name = ''amplitude000'', axes = ''time,freq,ant,dir,pol'', pol = Some 4\<rparr> # [])"
    by (simp add: example_h5files_def)
  have axis: "py_in ''pol'' (axes \<lparr>soltab_name = ''amplitude000'', axes = ''time,freq,ant,dir,pol'', pol = Some 4\<rparr>)"
    by (simp add: startswith_def)
  from applycal_fulljones_or_per_correlation [where h5files = example_h5files
      and solfile = "''fj.h5''" and st = "init [''a.ms'']", OF files axis]
  show "moreDP3_applycal example_h5files (Some ''fj.h5'') (init [''a.ms'']) =
     Inr \<lparr>mslist = [''a.ms''],
          cmd = base_cmd @ [''ac.type=applycal'', ''ac.parmdb=fj.h5'', ''ac.correction=fulljones'',
                            ''ac.soltab=[amplitude000,phase000]''],
          steps = [''ac'']\<rparr>"
    by (simp add: init_def)
next
  have files: "example_h5files ''sol.h5'' =
      Some (\<lparr>soltab_name = ''amplitude000'', axes = ''time,freq,ant,dir,pol'', pol = Some 2\<rparr>
            # [\<lparr>soltab_name = ''phase000'', axes = ''time,freq,ant,dir,pol'', pol = Some 2\<rparr>])"
    by (simp add: example_h5files_def)
  have axis: "py_in ''pol'' (axes \<lparr>soltab_name = ''amplitude000'', axes = ''time,freq,ant,dir,pol'', pol = Some 2\<rparr>)"
    by (simp add: startswith_def)
  from applycal_fulljones_or_per_correlation [where h5files = example_h5files
      and solfile = "''sol.h5''" and st = "init [''a.ms'']", OF files axis]
  show "moreDP3_applycal example_h5files (Some ''sol.h5'') (init [''a.ms'']) =
     Inr \<lparr>mslist = [''a.ms''],
          cmd = base_cmd @ [''ac0.type=applycal'', ''ac0.parmdb=sol.h5'',
                            ''ac0.correction=amplitude000'',
                            ''ac1.type=applycal'', ''ac1.parmdb=sol.h5'',
                            ''ac1.correction=phase000''],
          steps = [''ac0'', ''ac1'']\<rparr>"
    by (simp add: init_def str_nat_0 str_nat_1)
qed

lemma is_dec_other:
  assumes "is_dec c"
  shows "\<not> is_int_space c" and "\<not> is_alpha c" and "c \<noteq> CHR ''_''" and "c \<noteq> CHR ''-''"
    and "c \<noteq> CHR ''+''" and "is_digit c" and "digit_val c \<le> 9"
  using assms by (auto simp: is_dec_def is_int_space_def is_alpha_def is_digit_def digit_val_def)

lemma is_digit_not_alpha: "is_digit c \<Longrightarrow> \<not> is_alpha c"
  by (auto simp: is_digit_def is_dec_def is_alpha_def)

lemma strip_numeric:
  assumes "purely_numeric s"
  shows "strip s = s"
proof -
  from assms obtain c cs where s: "s = c # cs" and c: "is_dec c"
    by (cases s) (auto simp: purely_numeric_def)
  from assms have "is_dec (last s)" and "s \<noteq> []"
    by (auto simp: purely_numeric_def list_all_iff)
  then have "is_dec (hd (rev s))" and "rev s \<noteq> []"
    by (simp_all add: hd_rev)
  then have "dropWhile is_int_space (rev s) = rev s"
    by (cases "rev s") (auto simp: is_dec_other(1))
  moreover from s c have "dropWhile is_int_space s = s"
    by (simp add: is_dec_other(1))
  ultimately show ?thesis by (simp add: strip_def)
qed

lemma no_double_underscore_digits:
  "list_all is_dec s \<Longrightarrow> no_double_underscore s"
  by (induction s rule: no_double_underscore.induct) (auto dest: is_dec_other(3))

lemma py_int_numeric:
  assumes "purely_numeric s"
  shows "py_int s = (if length s \<le> max_str_digits then Some (int (dec_val s)) else None)"
proof -
  from assms have ne: "s \<noteq> []" and all: "list_all is_dec s"
    by (simp_all add: purely_numeric_def)
  then have first: "is_dec (hd s)" and final: "is_dec (last s)"
    by (auto simp: list_all_iff)
  from first have sign: "hd s \<noteq> CHR ''-''" "hd s \<noteq> CHR ''+''"
    by (auto dest: is_dec_other)
  from all have digits: "filter is_dec s = s"
    by (simp add: list_all_iff)
  from all have "list_all (\<lambda>c. is_dec c \<or> c = CHR ''_'') s"
    by (simp add: list_all_iff)
  with ne first final all have "valid_digits s"
    by (simp add: valid_digits_def no_double_underscore_digits)
  with sign digits show ?thesis
    by (simp add: py_int_def strip_numeric [OF assms] Let_def)
qed

lemma dec_val_snoc: "dec_val (s @ [c]) = 10 * dec_val s + digit_val c"
  by (simp add: dec_val_def)

lemma dec_val_bound: "list_all is_dec s \<Longrightarrow> dec_val s < 10 ^ length s"
proof (induction s rule: rev_induct)
  case Nil
  then show ?case by (simp add: dec_val_def)
next
  case (snoc c s)
  then have "dec_val s < 10 ^ length s" and "digit_val c \<le> 9"
    by (simp_all add: is_dec_other(7))
  then have "10 * dec_val s + digit_val c < 10 * 10 ^ length s"
    by linarith
  then show ?case by (simp add: dec_val_snoc)
qed

lemma length_str_nat: "n < 10 ^ k \<Longrightarrow> 0 < k \<Longrightarrow> length (str_nat n) \<le> k"
proof (induction n arbitrary: k rule: str_nat.induct)
  case (1 n)
  show ?case
  proof (cases "n < 10")
    case True
    with "1.prems" show ?thesis by (simp add: str_nat.simps [of n])
  next
    case False
    obtain j where k: "k = Suc j" using "1.prems"(2) by (cases k) auto
    with "1.prems"(1) have small: "n div 10 < 10 ^ j"
      by (simp add: less_mult_imp_div_less mult.commute)
    from False k "1.prems"(1) have "0 < j"
      by (cases j) auto
    from "1.IH" [OF False small this] have "length (str_nat (n div 10)) \<le> j" .
    with False k show ?thesis by (simp add: str_nat.simps [of n])
  qed
qed


lemma str_digits_bound:
  assumes "list_all is_dec d" and "d \<noteq> []" and "length d \<le> max_str_digits"
  shows "py_str_int (int (dec_val d)) = Some (str_int (int (dec_val d)))"
    and "py_str_int (- int (dec_val d)) = Some (str_int (- int (dec_val d)))"
proof -
  from assms(1) have "dec_val d < 10 ^ length d" by (rule dec_val_bound)
  moreover from assms(2) have "0 < length d" by simp
  ultimately have "length (str_nat (dec_val d)) \<le> length d" by (rule length_str_nat)
  with assms(3) have "\<not> max_str_digits < length (str_nat (dec_val d))" by simp
  then show "py_str_int (int (dec_val d)) = Some (str_int (int (dec_val d)))"
    and "py_str_int (- int (dec_val d)) = Some (str_int (- int (dec_val d)))"
    by (simp_all add: py_str_int_def)
qed

lemma py_str_int_of_py_int:
  assumes "py_int s = Some n"
  shows "py_str_int n = Some (str_int n)"
proof -
  define t where "t = strip s"
  define b where "b = (if t \<noteq> [] \<and> (hd t = CHR ''-'' \<or> hd t = CHR ''+'') then tl t else t)"
  define d where "d = filter is_dec b"
  from assms have valid: "valid_digits b" and short: "length d \<le> max_str_digits"
    and n: "n = int (dec_val d) \<or> n = - int (dec_val d)"
    by (auto simp: py_int_def Let_def t_def b_def d_def split: if_splits)
  from valid have "b \<noteq> []" and "is_dec (hd b)"
    by (simp_all add: valid_digits_def)
  then have "hd b \<in> set d"
    by (simp add: d_def)
  then have "d \<noteq> []" by auto
  moreover have "list_all is_dec d"
    by (simp add: d_def list_all_iff)
  ultimately show ?thesis
    using short n str_digits_bound by blast
qed

lemma int_token_str:
  "int_token key (AvgStr s) =
     (case py_int s of None \<Rightarrow> Inl ValueError | Some n \<Rightarrow> Inr (key @ str_int n))"
  by (simp add: int_token_def py_str_int_of_py_int split: option.splits)

lemma str_int_nat: "str_int (int n) = str_nat n"
  by (simp add: str_int_def)

lemma last_digit_not_alpha: "isdigit s \<Longrightarrow> \<not> is_alpha (last s)"
  by (auto simp: isdigit_def list_all_iff dest: is_digit_not_alpha)

lemma purely_numeric_isdigit: "purely_numeric s \<Longrightarrow> isdigit s"
  by (auto simp: purely_numeric_def isdigit_def list_all_iff dest: is_dec_other(6))

lemma freq_token_int:
  assumes "s \<noteq> []" and "\<not> is_alpha (last s)"
  shows "freq_token (AvgStr s) =
     (case py_int s of None \<Rightarrow> Inl ValueError | Some n \<Rightarrow> Inr (''avg.freqstep='' @ str_int n))"
  using assms by (simp add: freq_token_def int_token_str)

text \<open>
  Claim C7 (as the code has it). A non-empty string of the digits \<open>0\<close> to \<open>9\<close> gives
  \<open>avg.freqstep\<close> with its integer value, as long as it has no more digits than \<^verbatim>\<open>int()\<close>
  converts. A string whose last character is a letter gives \<open>avg.freqresolution\<close> carrying
  the string. Any other non-empty string is passed to \<^verbatim>\<open>int()\<close>: it gives \<open>avg.freqstep\<close>
  when the conversion succeeds and ValueError when it does not. The empty string ends in
  IndexError.
\<close>

theorem freq_token_selection:
  "(purely_numeric s \<longrightarrow>
      moreDP3_averaging (Some (AvgStr s)) timeavg st =
        (if length s \<le> max_str_digits
         then add_time_token timeavg
                (st\<lparr>steps := steps st @ [''avg''],
                    cmd := cmd st @ [''avg.type=averager'', ''avg.freqstep='' @ str_nat (dec_val s)]\<rparr>)
         else Inl ValueError))
   \<and> (s \<noteq> [] \<and> is_alpha (last s) \<longrightarrow>
      moreDP3_averaging (Some (AvgStr s)) timeavg st =
        add_time_token timeavg
          (st\<lparr>steps := steps st @ [''avg''],
              cmd := cmd st @ [''avg.type=averager'', ''avg.freqresolution='' @ s]\<rparr>))
   \<and> (s \<noteq> [] \<and> \<not> purely_numeric s \<and> \<not> is_alpha (last s) \<longrightarrow>
      moreDP3_averaging (Some (AvgStr s)) timeavg st =
        (case py_int s of
           None \<Rightarrow> Inl ValueError
         | Some n \<Rightarrow>
             add_time_token timeavg
               (st\<lparr>steps := steps st @ [''avg''],
                   cmd := cmd st @ [''avg.type=averager'', ''avg.freqstep='' @ str_int n]\<rparr>)))
   \<and> moreDP3_averaging (Some (AvgStr [])) timeavg st = Inl IndexError"
proof (intro conjI impI)
  assume num: "purely_numeric s"
  then have "s \<noteq> []" and "\<not> is_alpha (last s)"
    using last_digit_not_alpha purely_numeric_isdigit by (auto simp: purely_numeric_def)
  then have "freq_token (AvgStr s) =
      (if length s \<le> max_str_digits then Inr (''avg.freqstep='' @ str_nat (dec_val s))
       else Inl ValueError)"
    by (simp add: freq_token_int py_int_numeric [OF num] str_int_nat)
  then show "moreDP3_averaging (Some (AvgStr s)) timeavg st =
        (if length s \<le> max_str_digits
         then add_time_token timeavg
                (st\<lparr>steps := steps st @ [''avg''],
                    cmd := cmd st @ [''avg.type=averager'', ''avg.freqstep='' @ str_nat (dec_val s)]\<rparr>)
         else Inl ValueError)"
    by (simp add: moreDP3_averaging_def add_time_token_def add_token_def and_then_def)
next
  assume unit: "s \<noteq> [] \<and> is_alpha (last s)"
  then have "\<not> isdigit s" using last_digit_not_alpha by blast
  with unit have "freq_token (AvgStr s) = Inr (''avg.freqresolution='' @ s)"
    by (simp add: freq_token_def)
  then show "moreDP3_averaging (Some (AvgStr s)) timeavg st =
        add_time_token timeavg
          (st\<lparr>steps := steps st @ [''avg''],
              cmd := cmd st @ [''avg.type=averager'', ''avg.freqresolution='' @ s]\<rparr>)"
    by (simp add: moreDP3_averaging_def add_time_token_def add_token_def and_then_def)
next
  assume "s \<noteq> [] \<and> \<not> purely_numeric s \<and> \<not> is_alpha (last s)"
  then have "freq_token (AvgStr s) =
      (case py_int s of None \<Rightarrow> Inl ValueError | Some n \<Rightarrow> Inr (''avg.freqstep='' @ str_int n))"
    by (simp add: freq_token_int)
  then show "moreDP3_averaging (Some (AvgStr s)) timeavg st =
        (case py_int s of
           None \<Rightarrow> Inl ValueError
         | Some n \<Rightarrow>
             add_time_token timeavg
               (st\<lparr>steps := steps st @ [''avg''],
                   cmd := cmd st @ [''avg.type=averager'', ''avg.freqstep='' @ str_int n]\<rparr>))"
    by (simp add: moreDP3_averaging_def add_time_token_def add_token_def and_then_def
        split: option.splits)
next
  show "moreDP3_averaging (Some (AvgStr [])) timeavg st = Inl IndexError"
    by (simp add: moreDP3_averaging_def freq_token_def isdigit_def add_token_def and_then_def)
qed


theorem freq_token_selection_witness:
  "moreDP3_averaging (Some (AvgStr ''4'')) None (init []) =
     Inr \<lparr>mslist = [], cmd = base_cmd @ [''avg.type=averager'', ''avg.freqstep=4''],
          steps = [''avg'']\<rparr>
   \<and> moreDP3_averaging (Some (AvgStr ''2MHz'')) None (init []) =
     Inr \<lparr>mslist = [], cmd = base_cmd @ [''avg.type=averager'', ''avg.freqresolution=2MHz''],
          steps = [''avg'']\<rparr>
   \<and> moreDP3_averaging (Some (AvgStr ''-4'')) None (init []) =
     Inr \<lparr>mslist = [], cmd = base_cmd @ [''avg.type=averager'', ''avg.freqstep=-4''],
          steps = [''avg'']\<rparr>"
proof (intro conjI)
  have "purely_numeric ''4''" and "length ''4'' \<le> max_str_digits"
    and "str_nat (dec_val ''4'') = ''4''"
    by code_simp+
  with freq_token_selection [of "''4''" None "init []"]
  show "moreDP3_averaging (Some (AvgStr ''4'')) None (init []) =
     Inr \<lparr>mslist = [], cmd = base_cmd @ [''avg.type=averager'', ''avg.freqstep=4''],
          steps = [''avg'']\<rparr>"
    by (simp add: add_time_token_def init_def)
next
  have "is_alpha (last ''2MHz'')"
    by code_simp
  with freq_token_selection [of "''2MHz''" None "init []"]
  show "moreDP3_averaging (Some (AvgStr ''2MHz'')) None (init []) =
     Inr \<lparr>mslist = [], cmd = base_cmd @ [''avg.type=averager'', ''avg.freqresolution=2MHz''],
          steps = [''avg'']\<rparr>"
    by (simp add: add_time_token_def init_def)
next
  have "\<not> purely_numeric ''-4''" and "\<not> is_alpha (last ''-4'')" and "py_int ''-4'' = Some (- 4)"
    and "str_int (- 4) = ''-4''"
    by code_simp+
  with freq_token_selection [of "''-4''" None "init []"]
  show "moreDP3_averaging (Some (AvgStr ''-4'')) None (init []) =
     Inr \<lparr>mslist = [], cmd = base_cmd @ [''avg.type=averager'', ''avg.freqstep=-4''],
          steps = [''avg'']\<rparr>"
    by (simp add: add_time_token_def init_def)
qed

text \<open>
  Claim C7 as stated fails: \<open>2.5\<close> is not purely numeric, yet no resolution token is
  emitted (the conversion raises ValueError); \<open>-4\<close> is not purely numeric either and gives
  the step-count token.
\<close>

theorem decimal_point_raises:
  "\<not> isdigit ''2.5''
   \<and> moreDP3_averaging (Some (AvgStr ''2.5'')) None (init [''a.ms'']) = Inl ValueError
   \<and> freq_token (AvgStr ''2.5'') \<noteq> Inr ''avg.freqresolution=2.5''
   \<and> \<not> isdigit ''-4''
   \<and> freq_token (AvgStr ''-4'') = Inr ''avg.freqstep=-4''"
  by code_simp

text \<open>
  The separators 0x1C to 0x1F are white space for \<^verbatim>\<open>str.split()\<close> but not for \<^verbatim>\<open>int()\<close>.
\<close>

lemma int_keeps_separators:
  "py_int ([CHR 0x1F] @ ''5'') = None
   \<and> freq_token (AvgStr ([CHR 0x1F] @ ''5'')) = Inl ValueError
   \<and> py_int ([CHR 0x20] @ ''5'' @ [CHR 0x0A]) = Some 5"
  by code_simp

section \<open>Properties of the aggregator and the collector\<close>


lemma sum_list_map2_nth:
  assumes "length xs = length ys"
  shows "sum_list (map2 f xs ys) = (\<Sum>i<length xs. f (xs ! i) (ys ! i))"
proof -
  have "sum_list (map2 f xs ys) = (\<Sum>i = 0..<length (map2 f xs ys). map2 f xs ys ! i)"
    by (rule sum_list_sum_nth)
  also have "\<dots> = (\<Sum>i = 0..<length xs. f (xs ! i) (ys ! i))"
    using assms by (intro sum.cong) simp_all
  finally show ?thesis by (simp add: atLeast0LessThan)
qed

lemma sum_list_map_nth:
  "sum_list (map g xs) = (\<Sum>i<length xs. g (xs ! i))"
proof -
  have "sum_list (map g xs) = (\<Sum>i = 0..<length (map g xs). map g xs ! i)"
    by (rule sum_list_sum_nth)
  also have "\<dots> = (\<Sum>i = 0..<length xs. g (xs ! i))"
    by (intro sum.cong) simp_all
  finally show ?thesis by (simp add: atLeast0LessThan)
qed

lemma weighted_mean_formula:
  assumes "length vals = length errs" and "errs \<noteq> []" and "0 \<notin> set errs"
  shows "weighted_mean vals errs =
         Some (inverse_variance_mean (length errs) (\<lambda>i. vals ! i) (\<lambda>i. errs ! i))"
  using assms
  by (simp add: weighted_mean_def inverse_variance_mean_def sum_list_map2_nth sum_list_map_nth)

lemma uncertainty_formula:
  assumes "errs \<noteq> []" and "0 \<notin> set errs"
  shows "uncertainty errs = Some (combined_uncertainty (length errs) (\<lambda>i. errs ! i))"
  using assms
  by (simp add: uncertainty_def combined_uncertainty_def sum_list_map_nth)

lemma np_mean_formula:
  assumes "xs \<noteq> []"
  shows "np_mean xs = Some (plain_mean (length xs) (\<lambda>i. xs ! i))"
  using assms
  by (simp add: np_mean_def plain_mean_def sum_list_map_nth [of "\<lambda>x. x", simplified])

lemma sem_formula:
  assumes "2 \<le> length xs"
  shows "sem xs = Some (standard_error (length xs) (\<lambda>i. xs ! i))"
  using assms
  by (simp add: sem_def standard_error_def plain_mean_def sum_list_map_nth
      sum_list_map_nth [of "\<lambda>x. x", simplified])


lemma positive_nonzero: "\<forall>x \<in> set xs. (0::real) < f x \<Longrightarrow> 0 \<notin> set (map f xs)"
  by auto

lemma weighted_mean_map:
  assumes "xs \<noteq> []" and "\<forall>m \<in> set xs. 0 < h m"
  shows "weighted_mean (map g xs) (map h xs) =
         Some (inverse_variance_mean (length xs) (\<lambda>i. g (xs ! i)) (\<lambda>i. h (xs ! i)))"
proof -
  from assms(2) have "0 \<notin> set (map h xs)" by (intro positive_nonzero)
  with assms(1) have "weighted_mean (map g xs) (map h xs) =
      Some (inverse_variance_mean (length (map h xs)) (\<lambda>i. map g xs ! i) (\<lambda>i. map h xs ! i))"
    by (intro weighted_mean_formula) simp_all
  then show ?thesis
    by (simp add: inverse_variance_mean_def)
qed

lemma uncertainty_map:
  assumes "xs \<noteq> []" and "\<forall>m \<in> set xs. 0 < h m"
  shows "uncertainty (map h xs) = Some (combined_uncertainty (length xs) (\<lambda>i. h (xs ! i)))"
proof -
  from assms(2) have "0 \<notin> set (map h xs)" by (intro positive_nonzero)
  with assms(1) have "uncertainty (map h xs) =
      Some (combined_uncertainty (length (map h xs)) (\<lambda>i. map h xs ! i))"
    by (intro uncertainty_formula) simp_all
  then show ?thesis
    by (simp add: combined_uncertainty_def)
qed

lemma mean_and_sem_map:
  assumes "2 \<le> length xs"
  shows "np_mean (map g xs) = Some (plain_mean (length xs) (\<lambda>i. g (xs ! i)))"
    and "sem (map g xs) = Some (standard_error (length xs) (\<lambda>i. g (xs ! i)))"
proof -
  from assms have "map g xs \<noteq> []" and "2 \<le> length (map g xs)" by auto
  then have "np_mean (map g xs) = Some (plain_mean (length (map g xs)) (\<lambda>i. map g xs ! i))"
    and "sem (map g xs) = Some (standard_error (length (map g xs)) (\<lambda>i. map g xs ! i))"
    by (simp_all add: np_mean_formula sem_formula del: length_map)
  then show "np_mean (map g xs) = Some (plain_mean (length xs) (\<lambda>i. g (xs ! i)))"
    and "sem (map g xs) = Some (standard_error (length xs) (\<lambda>i. g (xs ! i)))"
    by (simp_all add: plain_mean_def standard_error_def)
qed

text \<open>
  Claim C8. For a non-empty list of measurements with positive slope errors, the slope printed
  in a per-variant block and in a total block is the inverse-variance weighted mean
  \<open>\<Sum>(v\<^sub>i / e\<^sub>i\<^sup>2) / \<Sum>(1 / e\<^sub>i\<^sup>2)\<close>. For the slopes 1 and 2 with errors 1 and 1 it is 3/2.
\<close>

theorem aggregated_slope:
  "(ms \<noteq> [] \<and> (\<forall>m \<in> set ms. 0 < slope_err m) \<longrightarrow>
      printed (slope_line (variant_block ms)) =
        Some (inverse_variance_mean (length ms) (\<lambda>i. slope (ms ! i)) (\<lambda>i. slope_err (ms ! i))))
   \<and> (r @ c \<noteq> [] \<and> (\<forall>m \<in> set (r @ c). 0 < slope_err m) \<longrightarrow>
      printed (slope_line (total_block r c)) =
        Some (inverse_variance_mean (length (r @ c)) (\<lambda>i. slope ((r @ c) ! i))
                (\<lambda>i. slope_err ((r @ c) ! i))))"
proof (intro conjI impI)
  assume "ms \<noteq> [] \<and> (\<forall>m \<in> set ms. 0 < slope_err m)"
  then show "printed (slope_line (variant_block ms)) =
      Some (inverse_variance_mean (length ms) (\<lambda>i. slope (ms ! i)) (\<lambda>i. slope_err (ms ! i)))"
    by (simp add: variant_block_def weighted_mean_map)
next
  assume "r @ c \<noteq> [] \<and> (\<forall>m \<in> set (r @ c). 0 < slope_err m)"
  then have "r @ c \<noteq> []" and "\<forall>m \<in> set (r @ c). 0 < slope_err m"
    by blast+
  from weighted_mean_map [OF this, of slope]
  show "printed (slope_line (total_block r c)) =
      Some (inverse_variance_mean (length (r @ c)) (\<lambda>i. slope ((r @ c) ! i))
              (\<lambda>i. slope_err ((r @ c) ! i)))"
    by (simp add: total_block_def)
qed

theorem aggregated_slope_witness:
  "printed (slope_line (variant_block [example_measurement 1 1, example_measurement 2 1])) =
     Some (3 / 2)
   \<and> weighted_mean [1, 2] [1, 1] = Some (3 / 2)"
proof
  from aggregated_slope [of "[example_measurement 1 1, example_measurement 2 1]" "[]" "[]"]
  show "printed (slope_line (variant_block [example_measurement 1 1, example_measurement 2 1])) =
     Some (3 / 2)"
    by (simp add: example_measurement_def inverse_variance_mean_def lessThan_Suc)
next
  show "weighted_mean [1, 2] [1, 1] = Some (3 / 2)"
    by (simp add: weighted_mean_def)
qed


text \<open>
  Claim C9. For a non-empty list of positive errors, \<open>uncertainty\<close> returns
  \<open>sqrt (1 / \<Sum>(1 / e\<^sub>i\<^sup>2))\<close>, and it is the uncertainty of all three lines of a total block.
  For two errors of 1 it returns \<open>1 / sqrt 2\<close>.
\<close>

theorem total_uncertainty:
  "(errs \<noteq> [] \<and> (\<forall>e \<in> set errs. 0 < e) \<longrightarrow>
      uncertainty errs = Some (combined_uncertainty (length errs) (\<lambda>i. errs ! i)))
   \<and> plus_minus (slope_line (print_total data f)) =
       uncertainty (map slope_err (data f Rudnick @ data f CB))
   \<and> plus_minus (pearson_line (print_total data f)) =
       uncertainty (map pearson_err (data f Rudnick @ data f CB))
   \<and> plus_minus (spearman_line (print_total data f)) =
       uncertainty (map spearman_err (data f Rudnick @ data f CB))"
proof (intro conjI impI)
  assume "errs \<noteq> [] \<and> (\<forall>e \<in> set errs. 0 < e)"
  then have "errs \<noteq> []" and "0 \<notin> set errs" by auto
  then show "uncertainty errs = Some (combined_uncertainty (length errs) (\<lambda>i. errs ! i))"
    by (rule uncertainty_formula)
qed (simp_all add: print_total_def total_block_def)

theorem total_uncertainty_witness:
  "uncertainty [1, 1] = Some (1 / sqrt 2)"
proof -
  have "combined_uncertainty (length [1, 1 :: real]) (\<lambda>i. [1, 1] ! i) = 1 / sqrt 2"
    by (simp add: combined_uncertainty_def lessThan_Suc real_sqrt_divide)
  with total_uncertainty [of "[1, 1]"] show ?thesis
    by simp
qed

text \<open>
  Claim C5. The six numbers are meant to come from the same lines in every loop, the Pearson
  error from the third-from-last line. The Rudnick loops of A401 and of the bridge read it
  from the last line instead: there the Pearson error is always the Spearman error. On the
  example file the four other loops read \<open>0.03\<close>, these two read \<open>0.04\<close>.
\<close>

theorem pearson_error_read_from_last_line:
  "pearson_err_text A401 Rudnick lines = spearman_err_text lines
   \<and> pearson_err_text Bridge Rudnick lines = spearman_err_text lines
   \<and> pearson_err_text A399 Rudnick example_result_file = Inr ''0.03''
   \<and> pearson_err_text A399 CB example_result_file = Inr ''0.03''
   \<and> pearson_err_text A401 CB example_result_file = Inr ''0.03''
   \<and> pearson_err_text Bridge CB example_result_file = Inr ''0.03''
   \<and> pearson_err_text A401 Rudnick example_result_file = Inr ''0.04''
   \<and> pearson_err_text Bridge Rudnick example_result_file = Inr ''0.04''"
proof (intro conjI)
  show "pearson_err_text A401 Rudnick lines = spearman_err_text lines"
    and "pearson_err_text Bridge Rudnick lines = spearman_err_text lines"
    by (simp_all add: pearson_err_text_def spearman_err_text_def pearson_err_line_def)
qed code_simp+


text \<open>
  Claim C4 (as the code has it). In the per-variant blocks the Pearson and Spearman lines are
  the plain mean with the standard error of the mean. In the total blocks they are the
  inverse-variance weighted mean with the uncertainty \<open>sqrt (1 / \<Sum>(1 / e\<^sub>i\<^sup>2))\<close>, as the
  slope is.
\<close>

theorem correlation_aggregates:
  "(2 \<le> length (data f v) \<longrightarrow>
      pearson_line (print_variant data v f) =
        \<lparr>printed = Some (plain_mean (length (data f v)) (\<lambda>i. pearson (data f v ! i))),
         plus_minus = Some (standard_error (length (data f v)) (\<lambda>i. pearson (data f v ! i)))\<rparr>
      \<and> spearman_line (print_variant data v f) =
        \<lparr>printed = Some (plain_mean (length (data f v)) (\<lambda>i. spearman (data f v ! i))),
         plus_minus = Some (standard_error (length (data f v)) (\<lambda>i. spearman (data f v ! i)))\<rparr>)
   \<and> (data f Rudnick @ data f CB \<noteq> []
        \<and> (\<forall>m \<in> set (data f Rudnick @ data f CB). 0 < pearson_err m \<and> 0 < spearman_err m) \<longrightarrow>
      pearson_line (print_total data f) =
        \<lparr>printed = Some (inverse_variance_mean (length (data f Rudnick @ data f CB))
                      (\<lambda>i. pearson ((data f Rudnick @ data f CB) ! i))
                      (\<lambda>i. pearson_err ((data f Rudnick @ data f CB) ! i))),
         plus_minus = Some (combined_uncertainty (length (data f Rudnick @ data f CB))
                      (\<lambda>i. pearson_err ((data f Rudnick @ data f CB) ! i)))\<rparr>
      \<and> spearman_line (print_total data f) =
        \<lparr>printed = Some (inverse_variance_mean (length (data f Rudnick @ data f CB))
                      (\<lambda>i. spearman ((data f Rudnick @ data f CB) ! i))
                      (\<lambda>i. spearman_err ((data f Rudnick @ data f CB) ! i))),
         plus_minus = Some (combined_uncertainty (length (data f Rudnick @ data f CB))
                      (\<lambda>i. spearman_err ((data f Rudnick @ data f CB) ! i)))\<rparr>)"
proof (intro conjI impI)
  let ?ms = "data f v"
  assume two: "2 \<le> length ?ms"
  show "pearson_line (print_variant data v f) =
        \<lparr>printed = Some (plain_mean (length ?ms) (\<lambda>i. pearson (?ms ! i))),
         plus_minus = Some (standard_error (length ?ms) (\<lambda>i. pearson (?ms ! i)))\<rparr>"
    by (simp add: print_variant_def variant_block_def mean_and_sem_map [OF two])
  show "spearman_line (print_variant data v f) =
        \<lparr>printed = Some (plain_mean (length ?ms) (\<lambda>i. spearman (?ms ! i))),
         plus_minus = Some (standard_error (length ?ms) (\<lambda>i. spearman (?ms ! i)))\<rparr>"
    by (simp add: print_variant_def variant_block_def mean_and_sem_map [OF two])
next
  let ?tot = "data f Rudnick @ data f CB"
  assume pre: "?tot \<noteq> [] \<and> (\<forall>m \<in> set ?tot. 0 < pearson_err m \<and> 0 < spearman_err m)"
  then have ne: "?tot \<noteq> []" and pe: "\<forall>m \<in> set ?tot. 0 < pearson_err m"
    and se: "\<forall>m \<in> set ?tot. 0 < spearman_err m"
    by blast+
  from weighted_mean_map [OF ne pe, of pearson] uncertainty_map [OF ne pe]
  show "pearson_line (print_total data f) =
        \<lparr>printed = Some (inverse_variance_mean (length ?tot) (\<lambda>i. pearson (?tot ! i))
                      (\<lambda>i. pearson_err (?tot ! i))),
         plus_minus = Some (combined_uncertainty (length ?tot) (\<lambda>i. pearson_err (?tot ! i)))\<rparr>"
    by (simp add: print_total_def total_block_def)
  from weighted_mean_map [OF ne se, of spearman] uncertainty_map [OF ne se]
  show "spearman_line (print_total data f) =
        \<lparr>printed = Some (inverse_variance_mean (length ?tot) (\<lambda>i. spearman (?tot ! i))
                      (\<lambda>i. spearman_err (?tot ! i))),
         plus_minus = Some (combined_uncertainty (length ?tot) (\<lambda>i. spearman_err (?tot ! i)))\<rparr>"
    by (simp add: print_total_def total_block_def)
qed


lemma sqrt_examples: "sqrt (1 / 2) / sqrt 2 = 1 / 2" "sqrt (4 / 9) = 2 / 3"
proof -
  have "sqrt (1 / 2) / sqrt 2 = 1 / (sqrt 2 * sqrt 2)"
    by (simp add: real_sqrt_divide)
  then show "sqrt (1 / 2) / sqrt 2 = 1 / 2" by simp
  show "sqrt (4 / 9) = 2 / 3"
    by (rule real_sqrt_unique) (simp_all add: power2_eq_square)
qed

theorem correlation_aggregates_witness:
  "pearson_line (print_variant example_data Rudnick A399) =
     \<lparr>printed = Some (3 / 2), plus_minus = Some (1 / 2)\<rparr>
   \<and> pearson_line (print_total example_data A399) =
     \<lparr>printed = Some (5 / 3), plus_minus = Some (2 / 3)\<rparr>"
  using correlation_aggregates [of example_data A399 Rudnick]
  by (simp add: example_data_def example_measurement_def plain_mean_def standard_error_def
      inverse_variance_mean_def combined_uncertainty_def lessThan_Suc power2_eq_square
      sqrt_examples)

text \<open>
  Claim C4 as stated fails for the total blocks: with Pearson values 1, 2, 3 and errors
  1, 1, 2 the total block prints 5/3, the plain mean is 2.
\<close>

theorem total_correlation_is_weighted:
  "printed (pearson_line (print_total example_data A399)) = Some (5 / 3)
   \<and> printed (spearman_line (print_total example_data A399)) = Some (5 / 3)
   \<and> np_mean (map pearson (example_data A399 Rudnick @ example_data A399 CB)) = Some 2
   \<and> np_mean (map spearman (example_data A399 Rudnick @ example_data A399 CB)) = Some 2"
  by (simp add: print_total_def total_block_def weighted_mean_def np_mean_def example_data_def
      example_measurement_def)

end
